theory Spec2Isabelle
  imports Main "HOL-Library.Word" "HOL-Library.AList" "HOL-Library.Sublist"
begin

section \<open>Thumbnails for 3D models: \<^verbatim>\<open>convert_model_to_image.py\<close>\<close>

text \<open>
  The script routes a model file to one of three renderers of the package
  \<^verbatim>\<open>model_to_image\<close> by its extension, picks one image from the renderer's
  answer and writes it to \<^verbatim>\<open><model_dir>/thumbnails/<model_name>.png\<close>.
  The renderers, the console and the file system are the surroundings of the script.
  They are modelled explicitly: the renderers as functions handed to the script, the
  console as the list of printed lines, the file system as a finite table from path
  strings to nodes, and a Python exception as the left summand of a result.
\<close>

subsection \<open>Paths: the functions of \<^verbatim>\<open>posixpath\<close> the script calls\<close>

text \<open>
  A path is a Python \<^verbatim>\<open>str\<close>; the model takes its characters as bytes. The
  functions follow CPython's \<^verbatim>\<open>posixpath\<close> (separator \<^verbatim>\<open>/\<close>).
\<close>

definition not_sep :: "char \<Rightarrow> bool" where
  "not_sep c = (c \<noteq> CHR ''/'')"

definition not_dot :: "char \<Rightarrow> bool" where
  "not_dot c = (c \<noteq> CHR ''.'')"

text \<open>\<^verbatim>\<open>p[i:]\<close> and \<^verbatim>\<open>p[:i]\<close> for \<^verbatim>\<open>i = p.rfind('/') + 1\<close>.\<close>

definition basename :: "string \<Rightarrow> string" where
  "basename p = rev (takeWhile not_sep (rev p))"

definition raw_head :: "string \<Rightarrow> string" where
  "raw_head p = rev (dropWhile not_sep (rev p))"

text \<open>\<^verbatim>\<open>head.rstrip('/')\<close> and the test \<^verbatim>\<open>head != '/' * len(head)\<close>.\<close>

definition rstrip_sep :: "string \<Rightarrow> string" where
  "rstrip_sep h = rev (dropWhile (\<lambda>c. c = CHR ''/'') (rev h))"

definition all_sep :: "string \<Rightarrow> bool" where
  "all_sep h = (filter not_sep h = [])"

definition dirname :: "string \<Rightarrow> string" where
  "dirname p =
     (let head = raw_head p
      in if head \<noteq> [] \<and> \<not> all_sep head then rstrip_sep head else head)"

text \<open>\<^verbatim>\<open>os.path.split\<close>: the pair of \<^verbatim>\<open>dirname\<close> and \<^verbatim>\<open>basename\<close>.\<close>

definition path_split :: "string \<Rightarrow> string \<times> string" where
  "path_split p = (dirname p, basename p)"

text \<open>
  \<^verbatim>\<open>os.path.splitext\<close>: the extension starts at the last dot, when that dot lies
  after the last separator and some character between the separator and the dot is
  not a dot (leading dots of a file name start no extension).
\<close>

definition splitext :: "string \<Rightarrow> string \<times> string" where
  "splitext p =
     (let b = basename p
      in if CHR ''.'' \<in> set b
         then (let ext = CHR ''.'' # rev (takeWhile not_dot (rev b));
                   stem = take (length b - length ext) b
               in if filter not_dot stem \<noteq> []
                  then (take (length p - length ext) p, ext)
                  else (p, []))
         else (p, []))"

text \<open>\<^verbatim>\<open>os.path.join(a, b)\<close> with two arguments.\<close>

definition join :: "string \<Rightarrow> string \<Rightarrow> string" where
  "join a b =
     (if b \<noteq> [] \<and> hd b = CHR ''/'' then b
      else if a = [] \<or> last a = CHR ''/'' then a @ b
      else a @ CHR ''/'' # b)"

text \<open>
  \<^verbatim>\<open>str.lower\<close> on ASCII: the letters A to Z go to a to z, every other
  character stays.
\<close>

definition lower_char :: "char \<Rightarrow> char" where
  "lower_char c =
     (case map_of (zip ''ABCDEFGHIJKLMNOPQRSTUVWXYZ'' ''abcdefghijklmnopqrstuvwxyz'') c of
        Some d \<Rightarrow> d
      | None \<Rightarrow> c)"

definition lower :: "string \<Rightarrow> string" where
  "lower s = map lower_char s"

text \<open>\<^verbatim>\<open>SUPPORTED_EXTS = {".obj", ".glb", ".stl"}\<close>\<close>

definition SUPPORTED_EXTS :: "string set" where
  "SUPPORTED_EXTS = {''.obj'', ''.glb'', ''.stl''}"

text \<open>The expression \<^verbatim>\<open>os.path.splitext(path)[1].lower()\<close>.\<close>

definition ext_lower :: "string \<Rightarrow> string" where
  "ext_lower p = lower (snd (splitext p))"

subsection \<open>Python values and exceptions\<close>

type_synonym bytes = "8 word list"

text \<open>
  What a renderer can hand back: \<^verbatim>\<open>None\<close>, an \<^verbatim>\<open>io.BytesIO\<close> with its
  content, a \<^verbatim>\<open>str\<close>, or some other object, of which the script only uses the
  truth value and the text \<^verbatim>\<open>str()\<close> gives.
\<close>

datatype pyval =
    PyNone
  | BytesIO bytes
  | PyStr string
  | PyObj bool string

text \<open>
  Python's truth test, as \<^verbatim>\<open>if img_bytes:\<close> applies it. \<^verbatim>\<open>io.BytesIO\<close>
  defines neither \<^verbatim>\<open>__bool__\<close> nor \<^verbatim>\<open>__len__\<close>: every buffer object is
  true, whatever it holds.
\<close>

fun truthy :: "pyval \<Rightarrow> bool" where
  "truthy PyNone = False"
| "truthy (BytesIO bs) = True"
| "truthy (PyStr s) = (s \<noteq> [])"
| "truthy (PyObj t s) = t"

text \<open>
  The text \<^verbatim>\<open>print\<close> and an f-string show for a value. A string is shown as it
  is. The text of a buffer object carries its address, which the model leaves out.
\<close>

fun py_str :: "pyval \<Rightarrow> string" where
  "py_str PyNone = ''None''"
| "py_str (BytesIO bs) = ''<_io.BytesIO object>''"
| "py_str (PyStr s) = s"
| "py_str (PyObj t s) = s"

datatype py_exn =
    FileExistsError
  | FileNotFoundError
  | IsADirectoryError
  | NotADirectoryError
  | RendererError string

subsection \<open>The file system\<close>

text \<open>
  A finite table from paths to nodes, in the order the entries were created. A path is
  looked up as it is spelled. The table stands for what the script can observe through
  \<^verbatim>\<open>isdir\<close>, \<^verbatim>\<open>isfile\<close>, \<^verbatim>\<open>listdir\<close>, \<^verbatim>\<open>makedirs\<close> and \<^verbatim>\<open>open\<close>;
  permissions, links and other processes are outside the model.
\<close>

datatype node = File bytes | Dir

type_synonym filesystem = "(string \<times> node) list"

definition exists_path :: "filesystem \<Rightarrow> string \<Rightarrow> bool" where
  "exists_path fs p = (map_of fs p \<noteq> None)"

definition isdir :: "filesystem \<Rightarrow> string \<Rightarrow> bool" where
  "isdir fs p = (map_of fs p = Some Dir)"

definition isfile :: "filesystem \<Rightarrow> string \<Rightarrow> bool" where
  "isfile fs p = (case map_of fs p of Some (File bs) \<Rightarrow> True | _ \<Rightarrow> False)"

text \<open>
  \<^verbatim>\<open>os.listdir(p)\<close>: the names of the entries directly inside \<^verbatim>\<open>p\<close>, in the
  order of the table. An entry lies directly inside \<^verbatim>\<open>p\<close> when joining \<^verbatim>\<open>p\<close>
  and its last component gives the entry's path.
\<close>

definition listdir :: "filesystem \<Rightarrow> string \<Rightarrow> py_exn + string list" where
  "listdir fs p =
     (case map_of fs p of
        None \<Rightarrow> Inl FileNotFoundError
      | Some (File bs) \<Rightarrow> Inl NotADirectoryError
      | Some Dir \<Rightarrow>
          Inr (map basename
                (filter (\<lambda>q. basename q \<noteq> [] \<and> join p (basename q) = q) (map fst fs))))"

text \<open>
  The directory that has to hold a new entry: the current directory (empty
  \<^verbatim>\<open>dirname\<close>) and the root are always there.
\<close>

definition parent_check :: "filesystem \<Rightarrow> string \<Rightarrow> py_exn option" where
  "parent_check fs p =
     (let d = dirname p
      in if d = [] \<or> all_sep d then None
         else (case map_of fs d of
                 None \<Rightarrow> Some FileNotFoundError
               | Some (File bs) \<Rightarrow> Some NotADirectoryError
               | Some Dir \<Rightarrow> None))"

text \<open>\<^verbatim>\<open>open(p, "rb").read()\<close>\<close>

definition read_file :: "filesystem \<Rightarrow> string \<Rightarrow> py_exn + bytes" where
  "read_file fs p =
     (case map_of fs p of
        None \<Rightarrow> Inl FileNotFoundError
      | Some Dir \<Rightarrow> Inl IsADirectoryError
      | Some (File bs) \<Rightarrow> Inr bs)"

text \<open>
  \<^verbatim>\<open>open(p, "wb")\<close> followed by \<^verbatim>\<open>write(bs)\<close>: the file is created or
  truncated, then holds exactly \<^verbatim>\<open>bs\<close>.
\<close>

definition write_file :: "string \<Rightarrow> bytes \<Rightarrow> filesystem \<Rightarrow> py_exn + filesystem" where
  "write_file p bs fs =
     (case parent_check fs p of
        Some e \<Rightarrow> Inl e
      | None \<Rightarrow>
          (case map_of fs p of
             Some Dir \<Rightarrow> Inl IsADirectoryError
           | _ \<Rightarrow> Inr (AList.update p (File bs) fs)))"

text \<open>\<^verbatim>\<open>os.mkdir(p)\<close>\<close>

definition mkdir :: "string \<Rightarrow> filesystem \<Rightarrow> py_exn + filesystem" where
  "mkdir p fs =
     (case parent_check fs p of
        Some e \<Rightarrow> Inl e
      | None \<Rightarrow>
          (if exists_path fs p then Inl FileExistsError
           else Inr (AList.update p Dir fs)))"

text \<open>
  The last step of \<^verbatim>\<open>os.makedirs(name, exist_ok=True)\<close>: \<^verbatim>\<open>mkdir\<close>, whose
  error is dropped when \<^verbatim>\<open>name\<close> is a directory. The result pairs the exception
  that leaves the call, if any, with the file system the call leaves behind.
\<close>

definition mkdir_exist_ok :: "string \<Rightarrow> filesystem \<Rightarrow> py_exn option \<times> filesystem" where
  "mkdir_exist_ok name fs =
     (case mkdir name fs of
        Inl e \<Rightarrow> (if isdir fs name then None else Some e, fs)
      | Inr fs' \<Rightarrow> (None, fs'))"

text \<open>The \<^verbatim>\<open>head, tail\<close> that \<^verbatim>\<open>os.makedirs\<close> computes from \<^verbatim>\<open>name\<close>.\<close>

definition makedirs_split :: "string \<Rightarrow> string \<times> string" where
  "makedirs_split name =
     (if basename name = [] then path_split (dirname name) else path_split name)"

lemma length_raw_head_basename: "length (raw_head p) + length (basename p) = length p"
proof -
  have "length (takeWhile not_sep (rev p)) + length (dropWhile not_sep (rev p)) = length (rev p)"
    by (metis length_append takeWhile_dropWhile_id)
  then show ?thesis
    by (simp add: raw_head_def basename_def)
qed

lemma length_dirname_le: "length (dirname p) \<le> length (raw_head p)"
  using length_dropWhile_le [of "\<lambda>c. c = CHR ''/''" "rev (raw_head p)"]
  by (simp add: dirname_def Let_def rstrip_sep_def)

lemma length_dirname_less: "basename p \<noteq> [] \<Longrightarrow> length (dirname p) < length p"
  using length_raw_head_basename [of p] length_dirname_le [of p]
  by (cases "basename p") auto

lemma length_dirname_le_self: "length (dirname p) \<le> length p"
  using length_raw_head_basename [of p] length_dirname_le [of p] by arith

lemma makedirs_split_shorter:
  "snd (makedirs_split name) \<noteq> [] \<Longrightarrow> length (fst (makedirs_split name)) < length name"
proof (cases "basename name = []")
  case True
  assume "snd (makedirs_split name) \<noteq> []"
  with True have "basename (dirname name) \<noteq> []"
    by (simp add: makedirs_split_def path_split_def)
  then have "length (dirname (dirname name)) < length (dirname name)"
    by (rule length_dirname_less)
  with length_dirname_le_self [of name] True show ?thesis
    by (simp add: makedirs_split_def path_split_def)
next
  case False
  then show ?thesis
    by (simp add: makedirs_split_def path_split_def length_dirname_less)
qed

text \<open>
  \<^verbatim>\<open>os.makedirs(name, exist_ok=True)\<close>: when the head is missing it is made first,
  a \<^verbatim>\<open>FileExistsError\<close> of that inner call is passed over, and a tail
  \<^verbatim>\<open>.\<close> ends the call; then the directory itself is made.
\<close>

function makedirs :: "string \<Rightarrow> filesystem \<Rightarrow> py_exn option \<times> filesystem" where
  "makedirs name fs =
     (let head = fst (makedirs_split name);
          tail = snd (makedirs_split name)
      in if head \<noteq> [] \<and> tail \<noteq> [] \<and> \<not> exists_path fs head
         then (let r = makedirs head fs
               in if fst r = None \<or> fst r = Some FileExistsError
                  then (if tail = ''.'' then (None, snd r) else mkdir_exist_ok name (snd r))
                  else r)
         else mkdir_exist_ok name fs)"
  by pat_completeness auto
termination
  by (relation "measure (\<lambda>(name, fs). length name)") (auto simp: makedirs_split_shorter)

declare makedirs.simps [simp del]

subsection \<open>The renderers and the world the script runs in\<close>

text \<open>
  The three functions imported from \<^verbatim>\<open>model_to_image\<close>. A call returns a value or
  raises; \<^verbatim>\<open>process_obj\<close> and \<^verbatim>\<open>process_stl\<close> are given a path and read the
  file themselves, so their answer may depend on the file system. The answer of
  \<^verbatim>\<open>process_stl\<close> is a \<^verbatim>\<open>dict\<close> with string keys, kept as the list of its
  items in insertion order (a key occurs once). The renderers change nothing in the
  file system, and a buffer they hand back is open, so that \<^verbatim>\<open>getvalue\<close> gives its
  bytes.
\<close>

type_synonym stl_images = "(string \<times> pyval) list"

record renderers =
  process_obj :: "filesystem \<Rightarrow> string \<Rightarrow> py_exn + pyval"
  glb_to_image :: "bytes \<Rightarrow> py_exn + pyval"
  process_stl :: "filesystem \<Rightarrow> string \<Rightarrow> py_exn + stl_images"

record world =
  files :: filesystem
  console :: "string list"

definition print_line :: "string \<Rightarrow> world \<Rightarrow> world" where
  "print_line s w = w\<lparr>console := console w @ [s]\<rparr>"

subsection \<open>\<^verbatim>\<open>class ProcessModel\<close>\<close>

record process_model =
  model_path :: string
  model_dir :: string
  model_name :: string
  thumbnails_dir :: string
  output_dir :: string

text \<open>
  \<^verbatim>\<open>ProcessModel.__init__\<close>: the fields are derived from the path alone, and
  \<^verbatim>\<open>os.makedirs(self.thumbnails_dir, exist_ok=True)\<close> runs on construction. When
  it raises, no object comes into being.
\<close>

definition ProcessModel_fields :: "string \<Rightarrow> process_model" where
  "ProcessModel_fields p =
     (let d = dirname p;
          n = fst (splitext (basename p));
          t = join d ''thumbnails''
      in \<lparr>model_path = p, model_dir = d, model_name = n, thumbnails_dir = t,
          output_dir = join t (n @ ''.png'')\<rparr>)"

definition ProcessModel_init :: "string \<Rightarrow> world \<Rightarrow> (py_exn + process_model) \<times> world" where
  "ProcessModel_init p w =
     (let pm = ProcessModel_fields p;
          r = makedirs (thumbnails_dir pm) (files w)
      in (case fst r of
            Some e \<Rightarrow> (Inl e, w\<lparr>files := snd r\<rparr>)
          | None \<Rightarrow> (Inr pm, w\<lparr>files := snd r\<rparr>)))"

text \<open>
  The loop of \<^verbatim>\<open>render\<close> over \<^verbatim>\<open>stl_images.values()\<close>: the first true value,
  and the initial \<^verbatim>\<open>None\<close> of \<^verbatim>\<open>image_bytes\<close> when there is none.
\<close>

fun first_truthy :: "pyval list \<Rightarrow> pyval" where
  "first_truthy [] = PyNone"
| "first_truthy (v # vs) = (if truthy v then v else first_truthy vs)"

text \<open>
  The choice among the views of an STL answer (the \<^verbatim>\<open>if "front" in stl_images and
  stl_images["front"]\<close> with its \<^verbatim>\<open>else\<close>).
\<close>

definition select_view :: "stl_images \<Rightarrow> pyval" where
  "select_view d =
     (case map_of d ''front'' of
        Some v \<Rightarrow> if truthy v then v else first_truthy (map snd d)
      | None \<Rightarrow> first_truthy (map snd d))"

text \<open>
  The first half of \<^verbatim>\<open>render\<close>, up to the test of \<^verbatim>\<open>image_bytes\<close>: it ends with
  a value in \<^verbatim>\<open>image_bytes\<close>, or it has printed a line and returned
  \<^verbatim>\<open>False\<close>, or a call has raised.
\<close>

datatype selection = Selected pyval | Rejected string

definition select_image :: "renderers \<Rightarrow> process_model \<Rightarrow> filesystem \<Rightarrow> py_exn + selection" where
  "select_image env pm fs =
     (let ext = ext_lower (model_path pm)
      in if ext = ''.obj''
         then (case process_obj env fs (model_path pm) of
                 Inl e \<Rightarrow> Inl e
               | Inr v \<Rightarrow> Inr (Selected v))
         else if ext = ''.glb''
         then (case read_file fs (model_path pm) of
                 Inl e \<Rightarrow> Inl e
               | Inr glb_bytes \<Rightarrow>
                   (case glb_to_image env glb_bytes of
                      Inl e \<Rightarrow> Inl e
                    | Inr v \<Rightarrow> Inr (Selected v)))
         else if ext = ''.stl''
         then (case process_stl env fs (model_path pm) of
                 Inl e \<Rightarrow> Inl e
               | Inr d \<Rightarrow>
                   (case map_of d ''error'' of
                      Some err \<Rightarrow> Inr (Rejected (py_str err))
                    | None \<Rightarrow> Inr (Selected (select_view d))))
         else Inr (Rejected (''Unsupported model format: '' @ ext)))"

text \<open>
  The second half of \<^verbatim>\<open>render\<close>: \<^verbatim>\<open>isinstance(image_bytes, io.BytesIO)\<close>
  decides between writing the thumbnail and reporting the value.
\<close>

definition write_thumbnail :: "process_model \<Rightarrow> pyval \<Rightarrow> world \<Rightarrow> (py_exn + bool) \<times> world" where
  "write_thumbnail pm image_bytes w =
     (case image_bytes of
        BytesIO bs \<Rightarrow>
          (case write_file (output_dir pm) bs (files w) of
             Inl e \<Rightarrow> (Inl e, w)
           | Inr fs' \<Rightarrow>
               (Inr True,
                print_line (''Thumbnail saved to '' @ output_dir pm) (w\<lparr>files := fs'\<rparr>)))
      | _ \<Rightarrow>
          (Inr False,
           print_line (''Model conversion failed or returned error: '' @ py_str image_bytes) w))"

definition render :: "renderers \<Rightarrow> process_model \<Rightarrow> world \<Rightarrow> (py_exn + bool) \<times> world" where
  "render env pm w =
     (case select_image env pm (files w) of
        Inl e \<Rightarrow> (Inl e, w)
      | Inr (Rejected msg) \<Rightarrow> (Inr False, print_line msg w)
      | Inr (Selected image_bytes) \<Rightarrow> write_thumbnail pm image_bytes w)"

subsection \<open>\<^verbatim>\<open>process_path\<close>\<close>

text \<open>The expression \<^verbatim>\<open>ProcessModel(path).render()\<close>.\<close>

definition construct_and_render :: "renderers \<Rightarrow> string \<Rightarrow> world \<Rightarrow> (py_exn + bool) \<times> world" where
  "construct_and_render env p w =
     (case ProcessModel_init p w of
        (Inl e, w1) \<Rightarrow> (Inl e, w1)
      | (Inr pm, w1) \<Rightarrow> render env pm w1)"

text \<open>
  The body of \<^verbatim>\<open>for fname in os.listdir(path)\<close>. The result of \<^verbatim>\<open>render\<close> is
  dropped; an exception leaves the loop.
\<close>

fun process_entries :: "renderers \<Rightarrow> string \<Rightarrow> string list \<Rightarrow> world \<Rightarrow> py_exn option \<times> world" where
  "process_entries env path [] w = (None, w)"
| "process_entries env path (fname # rest) w =
     (let fpath = join path fname
      in if isfile (files w) fpath \<and> ext_lower fname \<in> SUPPORTED_EXTS
         then (case construct_and_render env fpath (print_line (''Processing file: '' @ fpath) w) of
                 (Inl e, w') \<Rightarrow> (Some e, w')
               | (Inr b, w') \<Rightarrow> process_entries env path rest w')
         else process_entries env path rest w)"

definition process_path :: "renderers \<Rightarrow> string \<Rightarrow> world \<Rightarrow> py_exn option \<times> world" where
  "process_path env path w =
     (if isdir (files w) path
      then (let w1 = print_line (''Processing folder: '' @ path) w
            in (case listdir (files w1) path of
                  Inl e \<Rightarrow> (Some e, w1)
                | Inr names \<Rightarrow> process_entries env path names w1))
      else if isfile (files w) path
      then (let ext = ext_lower path
            in if ext \<in> SUPPORTED_EXTS
               then (case construct_and_render env path (print_line (''Processing file: '' @ path) w) of
                       (Inl e, w') \<Rightarrow> (Some e, w')
                     | (Inr b, w') \<Rightarrow> (None, w'))
               else (None, print_line (''Unsupported file format: '' @ ext) w))
      else (None, print_line (''Path does not exist: '' @ path) w))"

subsection \<open>The walk as the specification tells it\<close>

text \<open>
  The specification describes \<^verbatim>\<open>process_path\<close> on a directory as two parts: a walk
  that produces the candidates (the direct entries that are regular files with a
  supported extension, in listing order), and a thumbnailer run on each candidate in
  turn. The script has one loop that tests and processes entry by entry. The two
  definitions below follow the specification's words; they are compared with the loop
  of the script.
\<close>

definition spec_walk :: "filesystem \<Rightarrow> string \<Rightarrow> string list" where
  "spec_walk fs path =
     (case listdir fs path of
        Inl e \<Rightarrow> []
      | Inr names \<Rightarrow>
          map (join path)
            (filter (\<lambda>fname. isfile fs (join path fname) \<and> ext_lower fname \<in> SUPPORTED_EXTS)
               names))"

fun spec_thumbnail_each :: "renderers \<Rightarrow> string list \<Rightarrow> world \<Rightarrow> py_exn option \<times> world" where
  "spec_thumbnail_each env [] w = (None, w)"
| "spec_thumbnail_each env (c # cs) w =
     (case construct_and_render env c (print_line (''Processing file: '' @ c) w) of
        (Inl e, w') \<Rightarrow> (Some e, w')
      | (Inr b, w') \<Rightarrow> spec_thumbnail_each env cs w')"

subsection \<open>A non-empty buffer as the specification means it\<close>

text \<open>
  The specification speaks of views with a ``non-empty buffer''. Read by its words that
  is a buffer object holding at least one byte. The script never looks at the length of
  a buffer: it applies the truth test above, which every buffer object passes.
\<close>

fun nonempty_buffer :: "pyval \<Rightarrow> bool" where
  "nonempty_buffer (BytesIO bs) = (bs \<noteq> [])"
| "nonempty_buffer v = False"

subsection \<open>Conditions under which no call raises\<close>

text \<open>
  A file system is ready for a candidate when the parent of its thumbnails directory is
  there (or is the current directory), the thumbnails path is not a regular file, and the
  output path is not a directory: then neither \<^verbatim>\<open>makedirs\<close> nor the write can fail.
\<close>

definition io_ready :: "filesystem \<Rightarrow> string \<Rightarrow> bool" where
  "io_ready fs c =
     (let pm = ProcessModel_fields c;
          t = thumbnails_dir pm
      in (dirname t = [] \<or> isdir fs (dirname t)) \<and> \<not> isfile fs t \<and> \<not> isdir fs (output_dir pm))"

text \<open>Renderers that always return a value.\<close>

definition never_raises :: "renderers \<Rightarrow> bool" where
  "never_raises env =
     ((\<forall>fs p. \<exists>v. process_obj env fs p = Inr v) \<and>
      (\<forall>bs. \<exists>v. glb_to_image env bs = Inr v) \<and>
      (\<forall>fs p. \<exists>d. process_stl env fs p = Inr d))"

text \<open>
  The change \<^verbatim>\<open>makedirs\<close> can make: paths that were missing become directories,
  nothing else changes.
\<close>

definition only_dirs_added :: "filesystem \<Rightarrow> filesystem \<Rightarrow> bool" where
  "only_dirs_added fs fs' =
     (\<forall>q. map_of fs' q = map_of fs q \<or> (map_of fs q = None \<and> map_of fs' q = Some Dir))"

subsection \<open>Sample data\<close>

text \<open>A directory of models, renderer answers and a set of renderers that return them.\<close>

definition demo_files :: filesystem where
  "demo_files =
     [(''/'', Dir), (''/models'', Dir),
      (''/models/chair.OBJ'', File [111, 98, 106]),
      (''/models/tank.glb'', File [103, 108, 84, 70]),
      (''/models/readme.txt'', File [104, 105]),
      (''/models/sub'', Dir),
      (''/models/sub/inner.obj'', File [1]),
      (''/models/ship.stl'', File [115, 111]),
      (''/models/thumbnails'', Dir),
      (''/models/thumbnails/ship.png'', File [0])]"

definition demo_world :: world where
  "demo_world = \<lparr>files = demo_files, console = []\<rparr>"

definition demo_env :: "pyval \<Rightarrow> stl_images \<Rightarrow> renderers" where
  "demo_env v d =
     \<lparr>process_obj = (\<lambda>fs p. Inr v), glb_to_image = (\<lambda>bs. Inr v),
      process_stl = (\<lambda>fs p. Inr d)\<rparr>"

definition views_front_last :: stl_images where
  "views_front_last = [(''side'', BytesIO [1]), (''top'', BytesIO [2]), (''front'', BytesIO [3])]"

definition views_front_empty :: stl_images where
  "views_front_empty =
     [(''side'', PyNone), (''front'', PyNone), (''top'', BytesIO [2]), (''back'', BytesIO [9])]"

definition views_all_empty :: stl_images where
  "views_all_empty = [(''front'', PyNone), (''side'', PyStr [])]"

definition views_with_error :: stl_images where
  "views_with_error = [(''front'', BytesIO [3]), (''error'', PyStr ''mesh has no faces'')]"

definition chair :: process_model where
  "chair = ProcessModel_fields ''/models/chair.OBJ''"

definition tank :: process_model where
  "tank = ProcessModel_fields ''/models/tank.glb''"

definition ship :: process_model where
  "ship = ProcessModel_fields ''/models/ship.stl''"

definition readme :: process_model where
  "readme = ProcessModel_fields ''/models/readme.txt''"

definition demo_world_saved :: world where
  "demo_world_saved =
     \<lparr>files = AList.update ''/models/thumbnails/ship.png'' (File [3]) demo_files,
      console = [''Thumbnail saved to /models/thumbnails/ship.png'']\<rparr>"

text \<open>
  Renderers of which one fails, one succeeds and one reports an error; two directories
  in which a file operation of the script must fail.
\<close>

definition mixed_env :: renderers where
  "mixed_env =
     \<lparr>process_obj = (\<lambda>fs p. Inr PyNone), glb_to_image = (\<lambda>bs. Inr (BytesIO [7, 7])),
      process_stl = (\<lambda>fs p. Inr views_with_error)\<rparr>"



definition demo_world_walked :: world where
  "demo_world_walked =
     \<lparr>files = demo_files @ [(''/models/thumbnails/tank.png'', File [7, 7])],
      console =
        [''Processing folder: /models'',
         ''Processing file: /models/chair.OBJ'',
         ''Model conversion failed or returned error: None'',
         ''Processing file: /models/tank.glb'',
         ''Thumbnail saved to /models/thumbnails/tank.png'',
         ''Processing file: /models/ship.stl'',
         ''mesh has no faces'']\<rparr>"

definition bare_files :: filesystem where
  "bare_files = [(''/'', Dir), (''/models'', Dir), (''/models/readme.txt'', File [104, 105])]"

text \<open>
  Answers of \<^verbatim>\<open>process_stl\<close> that hold a buffer with no bytes, a directory with one
  STL model, and renderers whose GLB renderer raises.
\<close>

definition views_empty_front :: stl_images where
  "views_empty_front = [(''front'', BytesIO []), (''top'', BytesIO [2])]"

definition views_empty_first :: stl_images where
  "views_empty_first = [(''side'', BytesIO []), (''top'', BytesIO [2])]"

definition views_empty_buffer :: stl_images where
  "views_empty_buffer = [(''front'', BytesIO []), (''side'', PyNone)]"

definition stl_only_files :: filesystem where
  "stl_only_files =
     [(''/'', Dir), (''/models'', Dir), (''/models/ship.stl'', File [115, 111]),
      (''/models/thumbnails'', Dir)]"

definition stl_only_world :: world where
  "stl_only_world = \<lparr>files = stl_only_files, console = []\<rparr>"

definition bare_world :: world where
  "bare_world = \<lparr>files = bare_files, console = []\<rparr>"





section \<open>Properties\<close>

subsection \<open>Auxiliary facts\<close>

lemma files_print_line: "files (print_line s w) = files w"
  by (simp add: print_line_def)

lemma console_print_line: "console (print_line s w) = console w @ [s]"
  by (simp add: print_line_def)

lemma chair_fields:
  "chair = \<lparr>model_path = ''/models/chair.OBJ'', model_dir = ''/models'', model_name = ''chair'',
     thumbnails_dir = ''/models/thumbnails'', output_dir = ''/models/thumbnails/chair.png''\<rparr>"
  by code_simp

lemma tank_fields:
  "tank = \<lparr>model_path = ''/models/tank.glb'', model_dir = ''/models'', model_name = ''tank'',
     thumbnails_dir = ''/models/thumbnails'', output_dir = ''/models/thumbnails/tank.png''\<rparr>"
  by code_simp

lemma ship_fields:
  "ship = \<lparr>model_path = ''/models/ship.stl'', model_dir = ''/models'', model_name = ''ship'',
     thumbnails_dir = ''/models/thumbnails'', output_dir = ''/models/thumbnails/ship.png''\<rparr>"
  by code_simp

lemma readme_fields:
  "readme = \<lparr>model_path = ''/models/readme.txt'', model_dir = ''/models'', model_name = ''readme'',
     thumbnails_dir = ''/models/thumbnails'', output_dir = ''/models/thumbnails/readme.png''\<rparr>"
  by code_simp

lemma demo_exts:
  "ext_lower (model_path chair) = ''.obj''"
  "ext_lower (model_path tank) = ''.glb''"
  "ext_lower (model_path ship) = ''.stl''"
  "ext_lower (model_path readme) = ''.txt''"
  by code_simp+

lemma demo_paths:
  "model_path chair = ''/models/chair.OBJ''"
  "model_path tank = ''/models/tank.glb''"
  "model_path ship = ''/models/ship.stl''"
  "model_path readme = ''/models/readme.txt''"
  "output_dir ship = ''/models/thumbnails/ship.png''"
  "output_dir chair = ''/models/thumbnails/chair.png''"
  by (simp_all add: chair_fields tank_fields ship_fields readme_fields)

lemma files_demo_world: "files demo_world = demo_files"
  by (simp add: demo_world_def)

lemma render_unsupported:
  assumes "ext_lower (model_path pm) \<notin> SUPPORTED_EXTS"
  shows "render env pm w =
    (Inr False, print_line (''Unsupported model format: '' @ ext_lower (model_path pm)) w)"
  using assms by (simp add: render_def select_image_def SUPPORTED_EXTS_def Let_def)

lemma render_stl:
  assumes "ext_lower (model_path pm) = ''.stl''"
    and "process_stl env (files w) (model_path pm) = Inr d"
  shows "render env pm w =
     (case map_of d ''error'' of
        Some err \<Rightarrow> (Inr False, print_line (py_str err) w)
      | None \<Rightarrow> write_thumbnail pm (select_view d) w)"
  using assms by (simp add: render_def select_image_def split: option.splits)

lemma first_truthy_find:
  "first_truthy vs = (case List.find truthy vs of Some v \<Rightarrow> v | None \<Rightarrow> PyNone)"
  by (induction vs) auto

lemma first_truthy_none: "\<forall>v\<in>set vs. \<not> truthy v \<Longrightarrow> first_truthy vs = PyNone"
  by (induction vs) auto

lemma write_thumbnail_not_buffer:
  assumes "\<forall>bs. v \<noteq> BytesIO bs"
  shows "write_thumbnail pm v w =
    (Inr False, print_line (''Model conversion failed or returned error: '' @ py_str v) w)"
  using assms by (cases v) (simp_all add: write_thumbnail_def)

lemma lower_char_dot: "(lower_char c = CHR ''.'') = (c = CHR ''.'')"
  by (auto simp: lower_char_def split: option.splits if_splits)

lemma lower_char_sep: "(lower_char c = CHR ''/'') = (c = CHR ''/'')"
  by (auto simp: lower_char_def split: option.splits if_splits)

lemma not_sep_lower: "not_sep \<circ> lower_char = not_sep"
  by (auto simp: not_sep_def lower_char_sep fun_eq_iff)

lemma not_dot_lower: "not_dot \<circ> lower_char = not_dot"
  by (auto simp: not_dot_def lower_char_dot fun_eq_iff)

lemma basename_lower: "basename (lower p) = lower (basename p)"
  by (simp add: basename_def lower_def rev_map takeWhile_map not_sep_lower)

lemma splitext_lower: "snd (splitext (lower p)) = lower (snd (splitext p))"
proof -
  have dot: "(CHR ''.'' \<in> set (lower (basename p))) = (CHR ''.'' \<in> set (basename p))"
  proof -
    have "(CHR ''.'' \<in> lower_char ` set b) = (CHR ''.'' \<in> set b)" for b
      using lower_char_dot by (metis (no_types, opaque_lifting) image_iff)
    then show ?thesis by (simp add: lower_def)
  qed
  have ext: "CHR ''.'' # rev (takeWhile not_dot (rev (lower (basename p)))) =
      lower (CHR ''.'' # rev (takeWhile not_dot (rev (basename p))))"
    using lower_char_dot [of "CHR ''.''"]
    by (simp add: lower_def rev_map takeWhile_map not_dot_lower)
  have stem: "(filter not_dot (take n (lower b)) = []) = (filter not_dot (take n b) = [])" for n b
    by (simp add: lower_def take_map filter_map not_dot_lower)
  show ?thesis
    unfolding splitext_def basename_lower Let_def dot ext
    by (simp add: stem) (simp add: lower_def)
qed

lemma ext_lower_case_insensitive: "lower p = lower q \<Longrightarrow> ext_lower p = ext_lower q"
  by (metis ext_lower_def splitext_lower)

lemma only_dirs_added_refl: "only_dirs_added fs fs"
  by (simp add: only_dirs_added_def)

lemma only_dirs_added_trans:
  "only_dirs_added a b \<Longrightarrow> only_dirs_added b c \<Longrightarrow> only_dirs_added a c"
  unfolding only_dirs_added_def by metis

lemma mkdir_only_dirs: "mkdir p fs = Inr fs' \<Longrightarrow> only_dirs_added fs fs'"
  by (auto simp: mkdir_def only_dirs_added_def exists_path_def update_conv'
      split: option.splits if_splits)

lemma mkdir_exist_ok_only_dirs: "only_dirs_added fs (snd (mkdir_exist_ok p fs))"
  by (cases "mkdir p fs")
    (auto simp: mkdir_exist_ok_def only_dirs_added_refl mkdir_only_dirs)

lemma makedirs_only_dirs: "only_dirs_added fs (snd (makedirs name fs))"
proof (induction name fs rule: makedirs.induct)
  case (1 name fs)
  let ?head = "fst (makedirs_split name)"
  let ?tail = "snd (makedirs_split name)"
  show ?case
  proof (cases "?head \<noteq> [] \<and> ?tail \<noteq> [] \<and> \<not> exists_path fs ?head")
    case True
    then have ih: "only_dirs_added fs (snd (makedirs ?head fs))"
      using "1.IH" by simp
    have "only_dirs_added (snd (makedirs ?head fs))
        (snd (mkdir_exist_ok name (snd (makedirs ?head fs))))"
      by (rule mkdir_exist_ok_only_dirs)
    with ih have "only_dirs_added fs (snd (mkdir_exist_ok name (snd (makedirs ?head fs))))"
      by (rule only_dirs_added_trans)
    with ih True show ?thesis
      by (subst makedirs.simps) (simp add: Let_def)
  next
    case False
    then show ?thesis
      by (subst makedirs.simps) (auto simp: Let_def mkdir_exist_ok_only_dirs)
  qed
qed

lemma only_dirs_added_isfile: "only_dirs_added fs fs' \<Longrightarrow> isfile fs' q = isfile fs q"
  unfolding only_dirs_added_def isfile_def
  by (metis (no_types, lifting) node.simps(5) option.simps(4,5))

lemma init_only_dirs:
  "ProcessModel_init p w = (r, w1) \<Longrightarrow> only_dirs_added (files w) (files w1)"
  using makedirs_only_dirs [of "files w" "thumbnails_dir (ProcessModel_fields p)"]
  by (auto simp: ProcessModel_init_def Let_def split: option.splits)

lemma nonempty_buffer_truthy: "nonempty_buffer v \<Longrightarrow> truthy v"
  by (cases v) simp_all

lemma first_truthy_truthy: "\<exists>v\<in>set vs. truthy v \<Longrightarrow> truthy (first_truthy vs)"
  by (induction vs) auto

lemma select_view_truthy:
  assumes "\<exists>v\<in>set (map snd d). truthy v"
  shows "truthy (select_view d)"
  using assms first_truthy_truthy [of "map snd d"]
  by (auto simp: select_view_def split: option.splits)

lemma construct_and_render_unsupported:
  assumes "ext_lower p \<notin> SUPPORTED_EXTS"
  shows "construct_and_render env p w =
    (case fst (makedirs (thumbnails_dir (ProcessModel_fields p)) (files w)) of
       Some e \<Rightarrow> (Inl e, w\<lparr>files := snd (makedirs (thumbnails_dir (ProcessModel_fields p)) (files w))\<rparr>)
     | None \<Rightarrow>
         (Inr False,
          print_line (''Unsupported model format: '' @ ext_lower p)
            (w\<lparr>files := snd (makedirs (thumbnails_dir (ProcessModel_fields p)) (files w))\<rparr>)))"
proof -
  have mp: "model_path (ProcessModel_fields p) = p"
    by (simp add: ProcessModel_fields_def Let_def)
  show ?thesis
    using assms render_unsupported [of "ProcessModel_fields p" env]
    by (simp add: construct_and_render_def ProcessModel_init_def Let_def mp split: option.splits)
qed

subsection \<open>Dispatch on the extension\<close>

text \<open>
  Claim C1, as the specification states it, fails. To render a model path the script
  evaluates \<^verbatim>\<open>ProcessModel(path).render()\<close>, and the constructor runs
  \<^verbatim>\<open>os.makedirs(self.thumbnails_dir, exist_ok=True)\<close> before \<^verbatim>\<open>render\<close> looks
  at the extension. For \<^verbatim>\<open>/models/readme.txt\<close>, in a directory without
  \<^verbatim>\<open>thumbnails\<close>, the result is \<^verbatim>\<open>False\<close> and the unsupported-format message,
  and the directory \<^verbatim>\<open>/models/thumbnails\<close> has been created.
\<close>

theorem constructor_makes_thumbnails_directory:
  "ext_lower ''/models/readme.txt'' \<notin> SUPPORTED_EXTS
   \<and> \<not> exists_path bare_files ''/models/thumbnails''
   \<and> construct_and_render (demo_env PyNone []) ''/models/readme.txt''
        \<lparr>files = bare_files, console = []\<rparr> =
      (Inr False,
       \<lparr>files = bare_files @ [(''/models/thumbnails'', Dir)],
        console = [''Unsupported model format: .txt'']\<rparr>)
   \<and> isdir (bare_files @ [(''/models/thumbnails'', Dir)]) ''/models/thumbnails''"
  by code_simp

text \<open>
  Claim C1, amended. \<^verbatim>\<open>render\<close> dispatches on the lowercased extension of the model
  path. With extension \<^verbatim>\<open>.obj\<close> it calls \<^verbatim>\<open>process_obj\<close> on the path, with
  \<^verbatim>\<open>.glb\<close> it reads the file and calls \<^verbatim>\<open>glb_to_image\<close> on the bytes, with
  \<^verbatim>\<open>.stl\<close> it calls \<^verbatim>\<open>process_stl\<close> on the path; the value obtained goes to
  the writing step. Paths that differ only in the case of their letters take the same
  branch. With any other extension the method \<^verbatim>\<open>render\<close> returns \<^verbatim>\<open>False\<close>,
  prints \<^verbatim>\<open>Unsupported model format: <ext>\<close> and leaves the file system as it found
  it. The whole expression \<^verbatim>\<open>ProcessModel(path).render()\<close> on such a path leaves the
  file system as \<^verbatim>\<open>os.makedirs\<close> of the thumbnails directory leaves it: paths that
  were missing may have become directories, no file is created or written; it returns
  \<^verbatim>\<open>False\<close> with that message, unless \<^verbatim>\<open>os.makedirs\<close> raises.
\<close>

theorem render_dispatches_on_extension:
  "(ext_lower (model_path pm) = ''.obj'' \<longrightarrow>
      render env pm w =
        (case process_obj env (files w) (model_path pm) of
           Inl e \<Rightarrow> (Inl e, w)
         | Inr v \<Rightarrow> write_thumbnail pm v w))
   \<and> (ext_lower (model_path pm) = ''.glb'' \<longrightarrow>
      render env pm w =
        (case read_file (files w) (model_path pm) of
           Inl e \<Rightarrow> (Inl e, w)
         | Inr glb_bytes \<Rightarrow>
             (case glb_to_image env glb_bytes of
                Inl e \<Rightarrow> (Inl e, w)
              | Inr v \<Rightarrow> write_thumbnail pm v w)))
   \<and> (ext_lower (model_path pm) = ''.stl'' \<longrightarrow>
      render env pm w =
        (case process_stl env (files w) (model_path pm) of
           Inl e \<Rightarrow> (Inl e, w)
         | Inr d \<Rightarrow>
             (case map_of d ''error'' of
                Some err \<Rightarrow> (Inr False, print_line (py_str err) w)
              | None \<Rightarrow> write_thumbnail pm (select_view d) w)))
   \<and> (ext_lower (model_path pm) \<notin> SUPPORTED_EXTS \<longrightarrow>
      render env pm w =
        (Inr False, print_line (''Unsupported model format: '' @ ext_lower (model_path pm)) w)
      \<and> files (snd (render env pm w)) = files w)
   \<and> (lower p = lower (model_path pm) \<longrightarrow> ext_lower p = ext_lower (model_path pm))
   \<and> (ext_lower path \<notin> SUPPORTED_EXTS \<longrightarrow>
      construct_and_render env path w =
        (case fst (makedirs (thumbnails_dir (ProcessModel_fields path)) (files w)) of
           Some e \<Rightarrow>
             (Inl e,
              w\<lparr>files := snd (makedirs (thumbnails_dir (ProcessModel_fields path)) (files w))\<rparr>)
         | None \<Rightarrow>
             (Inr False,
              print_line (''Unsupported model format: '' @ ext_lower path)
                (w\<lparr>files :=
                     snd (makedirs (thumbnails_dir (ProcessModel_fields path)) (files w))\<rparr>)))
      \<and> files (snd (construct_and_render env path w)) =
          snd (makedirs (thumbnails_dir (ProcessModel_fields path)) (files w))
      \<and> only_dirs_added (files w) (files (snd (construct_and_render env path w)))
      \<and> (\<forall>q. isfile (files (snd (construct_and_render env path w))) q = isfile (files w) q))"
proof (intro conjI impI)
  assume "ext_lower (model_path pm) = ''.obj''"
  then show "render env pm w =
        (case process_obj env (files w) (model_path pm) of
           Inl e \<Rightarrow> (Inl e, w)
         | Inr v \<Rightarrow> write_thumbnail pm v w)"
    by (simp add: render_def select_image_def split: sum.splits)
next
  assume "ext_lower (model_path pm) = ''.glb''"
  then show "render env pm w =
        (case read_file (files w) (model_path pm) of
           Inl e \<Rightarrow> (Inl e, w)
         | Inr glb_bytes \<Rightarrow>
             (case glb_to_image env glb_bytes of
                Inl e \<Rightarrow> (Inl e, w)
              | Inr v \<Rightarrow> write_thumbnail pm v w))"
    by (simp add: render_def select_image_def split: sum.splits)
next
  assume "ext_lower (model_path pm) = ''.stl''"
  then show "render env pm w =
        (case process_stl env (files w) (model_path pm) of
           Inl e \<Rightarrow> (Inl e, w)
         | Inr d \<Rightarrow>
             (case map_of d ''error'' of
                Some err \<Rightarrow> (Inr False, print_line (py_str err) w)
              | None \<Rightarrow> write_thumbnail pm (select_view d) w))"
    by (simp add: render_def select_image_def split: sum.splits option.splits)
next
  assume "ext_lower (model_path pm) \<notin> SUPPORTED_EXTS"
  then show "render env pm w =
        (Inr False, print_line (''Unsupported model format: '' @ ext_lower (model_path pm)) w)"
    by (rule render_unsupported)
  then show "files (snd (render env pm w)) = files w"
    by (simp add: files_print_line)
next
  assume "lower p = lower (model_path pm)"
  then show "ext_lower p = ext_lower (model_path pm)"
    by (rule ext_lower_case_insensitive)
next
  assume u: "ext_lower path \<notin> SUPPORTED_EXTS"
  let ?r = "makedirs (thumbnails_dir (ProcessModel_fields path)) (files w)"
  show car: "construct_and_render env path w =
        (case fst ?r of
           Some e \<Rightarrow> (Inl e, w\<lparr>files := snd ?r\<rparr>)
         | None \<Rightarrow>
             (Inr False,
              print_line (''Unsupported model format: '' @ ext_lower path)
                (w\<lparr>files := snd ?r\<rparr>)))"
    using u by (rule construct_and_render_unsupported)
  then show f: "files (snd (construct_and_render env path w)) = snd ?r"
    by (simp add: files_print_line split: option.splits)
  show od: "only_dirs_added (files w) (files (snd (construct_and_render env path w)))"
    unfolding f by (rule makedirs_only_dirs)
  show "\<forall>q. isfile (files (snd (construct_and_render env path w))) q = isfile (files w) q"
    using od by (simp add: only_dirs_added_isfile)
qed

theorem render_dispatches_on_extension_witness:
  "ext_lower (model_path chair) = ''.obj''
   \<and> render (demo_env (BytesIO [137, 80]) views_front_last) chair demo_world =
       write_thumbnail chair (BytesIO [137, 80]) demo_world
   \<and> ext_lower (model_path tank) = ''.glb''
   \<and> render (demo_env (PyStr ''bad glb'') views_front_last) tank demo_world =
       write_thumbnail tank (PyStr ''bad glb'') demo_world
   \<and> ext_lower (model_path ship) = ''.stl''
   \<and> render (demo_env PyNone views_front_last) ship demo_world =
       write_thumbnail ship (BytesIO [3]) demo_world
   \<and> ext_lower (model_path readme) \<notin> SUPPORTED_EXTS
   \<and> render (demo_env PyNone views_front_last) readme demo_world =
       (Inr False, \<lparr>files = demo_files, console = [''Unsupported model format: .txt'']\<rparr>)
   \<and> lower ''/MODELS/Chair.obj'' = lower (model_path chair)
   \<and> ext_lower ''/MODELS/Chair.obj'' = ''.obj''
   \<and> ext_lower ''/models/readme.txt'' \<notin> SUPPORTED_EXTS
   \<and> makedirs (thumbnails_dir (ProcessModel_fields ''/models/readme.txt'')) (files bare_world) =
       (None, bare_files @ [(''/models/thumbnails'', Dir)])
   \<and> construct_and_render (demo_env PyNone views_front_last) ''/models/readme.txt'' bare_world =
       (Inr False,
        \<lparr>files = bare_files @ [(''/models/thumbnails'', Dir)],
         console = [''Unsupported model format: .txt'']\<rparr>)
   \<and> isfile (bare_files @ [(''/models/thumbnails'', Dir)]) ''/models/thumbnails'' =
       isfile bare_files ''/models/thumbnails''"
proof -
  have l: "lower ''/MODELS/Chair.obj'' = lower (model_path chair)"
    unfolding demo_paths by code_simp
  have obj: "render (demo_env (BytesIO [137, 80]) views_front_last) chair demo_world =
       write_thumbnail chair (BytesIO [137, 80]) demo_world"
    and ci: "ext_lower ''/MODELS/Chair.obj'' = ''.obj''"
    using render_dispatches_on_extension [of chair "demo_env (BytesIO [137, 80]) views_front_last"
        demo_world "''/MODELS/Chair.obj''" "[]"] l
    by (simp_all add: demo_exts demo_env_def)
  have rd: "read_file (files demo_world) (model_path tank) = Inr [103, 108, 84, 70]"
    by (simp add: demo_paths files_demo_world read_file_def demo_files_def)
  have glb: "render (demo_env (PyStr ''bad glb'') views_front_last) tank demo_world =
       write_thumbnail tank (PyStr ''bad glb'') demo_world"
    using render_dispatches_on_extension [of tank "demo_env (PyStr ''bad glb'') views_front_last"
        demo_world "[]" "[]"]
    by (simp add: demo_exts demo_env_def rd)
  have v: "select_view views_front_last = BytesIO [3]"
    by (simp add: select_view_def views_front_last_def)
  have e: "map_of views_front_last ''error'' = None"
    by (simp add: views_front_last_def)
  have stl: "render (demo_env PyNone views_front_last) ship demo_world =
       write_thumbnail ship (BytesIO [3]) demo_world"
    using render_dispatches_on_extension [of ship "demo_env PyNone views_front_last" demo_world "[]" "[]"]
    by (simp add: demo_exts demo_env_def v e)
  have u: "ext_lower (model_path readme) \<notin> SUPPORTED_EXTS"
    by (simp add: demo_exts SUPPORTED_EXTS_def)
  have other: "render (demo_env PyNone views_front_last) readme demo_world =
       (Inr False, \<lparr>files = demo_files, console = [''Unsupported model format: .txt'']\<rparr>)"
    using render_dispatches_on_extension [of readme "demo_env PyNone views_front_last"
        demo_world "[]" "[]"] u
    by (simp add: demo_exts print_line_def demo_world_def)
  have x: "ext_lower ''/models/readme.txt'' = ''.txt''"
    by code_simp
  then have u': "ext_lower ''/models/readme.txt'' \<notin> SUPPORTED_EXTS"
    by (simp add: SUPPORTED_EXTS_def)
  have mk: "makedirs (thumbnails_dir (ProcessModel_fields ''/models/readme.txt''))
      (files bare_world) = (None, bare_files @ [(''/models/thumbnails'', Dir)])"
    by code_simp
  from render_dispatches_on_extension [of readme "demo_env PyNone views_front_last" bare_world "[]"
      "''/models/readme.txt''"] u'
  have car0: "construct_and_render (demo_env PyNone views_front_last) ''/models/readme.txt''
      bare_world =
        (case fst (makedirs (thumbnails_dir (ProcessModel_fields ''/models/readme.txt''))
              (files bare_world)) of
           Some e \<Rightarrow>
             (Inl e,
              bare_world\<lparr>files := snd (makedirs
                (thumbnails_dir (ProcessModel_fields ''/models/readme.txt''))
                (files bare_world))\<rparr>)
         | None \<Rightarrow>
             (Inr False,
              print_line (''Unsupported model format: '' @ ext_lower ''/models/readme.txt'')
                (bare_world\<lparr>files := snd (makedirs
                  (thumbnails_dir (ProcessModel_fields ''/models/readme.txt''))
                  (files bare_world))\<rparr>)))"
    and isf0: "\<forall>q. isfile (files (snd (construct_and_render (demo_env PyNone views_front_last)
        ''/models/readme.txt'' bare_world))) q = isfile (files bare_world) q"
    by blast+
  from car0 [unfolded mk]
  have car: "construct_and_render (demo_env PyNone views_front_last) ''/models/readme.txt''
      bare_world =
       (Inr False,
        \<lparr>files = bare_files @ [(''/models/thumbnails'', Dir)],
         console = [''Unsupported model format: .txt'']\<rparr>)"
    by (simp add: x print_line_def bare_world_def)
  from isf0 car have isf': "isfile (bare_files @ [(''/models/thumbnails'', Dir)])
      ''/models/thumbnails'' = isfile bare_files ''/models/thumbnails''"
    by (simp add: bare_world_def)
  from obj ci glb stl u other l u' mk car isf' show ?thesis
    by (simp add: demo_exts)
qed

subsection \<open>Choice among the views of an STL answer\<close>

text \<open>
  The script tests a view with Python's truth test (\<^verbatim>\<open>if img_bytes:\<close>).
  \<^verbatim>\<open>None\<close> fails it; a buffer object passes it whatever it holds, so a view with a
  buffer of no bytes is taken like any other buffer. A buffer that holds bytes passes
  the test in particular.
\<close>

text \<open>
  Claim C2. When the answer of \<^verbatim>\<open>process_stl\<close> holds a view \<^verbatim>\<open>front\<close> whose
  value is non-empty, the image chosen is that value, wherever \<^verbatim>\<open>front\<close> stands in
  the mapping and whatever the other views hold; in \<^verbatim>\<open>render\<close> (which reaches the
  choice when the answer has no key \<^verbatim>\<open>error\<close>) that value goes to the writing step.
\<close>

theorem front_view_is_selected:
  assumes "map_of d ''front'' = Some v" and "truthy v"
  shows "select_view d = v \<and>
    (ext_lower (model_path pm) = ''.stl'' \<and>
     process_stl env (files w) (model_path pm) = Inr d \<and> map_of d ''error'' = None
       \<longrightarrow> select_image env pm (files w) = Inr (Selected v)
         \<and> render env pm w = write_thumbnail pm v w)"
proof -
  from assms have "select_view d = v"
    by (simp add: select_view_def)
  then show ?thesis
    by (auto simp: render_stl select_image_def)
qed

theorem front_view_is_selected_witness:
  "map_of views_front_last ''front'' = Some (BytesIO [3]) \<and> truthy (BytesIO [3])
   \<and> map_of views_front_last ''side'' = Some (BytesIO [1]) \<and> truthy (BytesIO [1])
   \<and> select_view views_front_last = BytesIO [3]
   \<and> select_image (demo_env PyNone views_front_last) ship (files demo_world) =
       Inr (Selected (BytesIO [3]))
   \<and> render (demo_env PyNone views_front_last) ship demo_world =
       write_thumbnail ship (BytesIO [3]) demo_world"
proof -
  have f: "map_of views_front_last ''front'' = Some (BytesIO [3])"
    and s: "map_of views_front_last ''side'' = Some (BytesIO [1])"
    and e: "map_of views_front_last ''error'' = None"
    by (simp_all add: views_front_last_def)
  have t: "truthy (BytesIO [3])"
    by simp
  show ?thesis
    using front_view_is_selected [OF f t, of ship "demo_env PyNone views_front_last" demo_world]
    by (simp add: f s e demo_exts demo_env_def)
qed

text \<open>
  Claim C3, as the specification states it, fails. In the first answer \<^verbatim>\<open>front\<close>
  holds a buffer with no bytes and \<^verbatim>\<open>top\<close> a buffer with one byte: there is no
  non-empty \<^verbatim>\<open>front\<close> view and the first non-empty buffer is that of \<^verbatim>\<open>top\<close>,
  but the script selects the empty buffer of \<^verbatim>\<open>front\<close> and writes a thumbnail of
  no bytes. In the second answer, without \<^verbatim>\<open>front\<close>, it selects the empty buffer
  of \<^verbatim>\<open>side\<close>, which comes first.
\<close>

theorem zero_length_front_is_selected:
  "map_of views_empty_front ''front'' = Some (BytesIO [])
   \<and> \<not> nonempty_buffer (BytesIO [])
   \<and> List.find nonempty_buffer (map snd views_empty_front) = Some (BytesIO [2])
   \<and> select_view views_empty_front = BytesIO []
   \<and> select_view views_empty_front \<noteq> BytesIO [2]
   \<and> render (demo_env PyNone views_empty_front) ship stl_only_world =
       (Inr True,
        \<lparr>files = stl_only_files @ [(''/models/thumbnails/ship.png'', File [])],
         console = [''Thumbnail saved to /models/thumbnails/ship.png'']\<rparr>)
   \<and> map_of views_empty_first ''front'' = None
   \<and> List.find nonempty_buffer (map snd views_empty_first) = Some (BytesIO [2])
   \<and> select_view views_empty_first = BytesIO []"
  by code_simp

text \<open>
  Claim C3, amended. When the answer holds no \<^verbatim>\<open>front\<close> view that passes Python's
  truth test (the key is missing or its value is false, as \<^verbatim>\<open>None\<close> is) and some
  value passes it, the image chosen is the first value that passes the test when the
  values are gone through in insertion order. The choice is a function of the mapping.
  Every buffer object passes the test, also one with no bytes; in a mapping whose true
  values are all buffers that hold bytes, the choice is the first non-empty buffer.
\<close>

theorem first_true_view_is_selected:
  assumes "\<forall>v. map_of d ''front'' = Some v \<longrightarrow> \<not> truthy v"
    and "\<exists>v\<in>set (map snd d). truthy v"
  shows "List.find truthy (map snd d) = Some (select_view d) \<and>
    (\<exists>before k after. d = before @ (k, select_view d) # after
        \<and> truthy (select_view d) \<and> (\<forall>x\<in>set before. \<not> truthy (snd x))) \<and>
    (ext_lower (model_path pm) = ''.stl'' \<and>
     process_stl env (files w) (model_path pm) = Inr d \<and> map_of d ''error'' = None
       \<longrightarrow> select_image env pm (files w) = Inr (Selected (select_view d))
         \<and> render env pm w = write_thumbnail pm (select_view d) w) \<and>
    ((\<forall>v\<in>set (map snd d). truthy v \<longrightarrow> nonempty_buffer v)
       \<longrightarrow> List.find nonempty_buffer (map snd d) = Some (select_view d))"
proof -
  from assms(1) have "select_view d = first_truthy (map snd d)"
    by (simp add: select_view_def split: option.splits)
  moreover from assms(2) obtain x where "List.find truthy (map snd d) = Some x"
    by (cases "List.find truthy (map snd d)") (auto simp: find_None_iff)
  ultimately have f: "List.find truthy (map snd d) = Some (select_view d)"
    by (simp add: first_truthy_find)
  then obtain i where i: "i < length d" "truthy (snd (d ! i))" "select_view d = snd (d ! i)"
      "\<forall>j<i. \<not> truthy (snd (d ! j))"
    by (auto simp: find_Some_iff)
  have "d = take i d @ (fst (d ! i), select_view d) # drop (Suc i) d"
    using i(1,3) by (simp add: id_take_nth_drop)
  moreover have "\<forall>x\<in>set (take i d). \<not> truthy (snd x)"
  proof
    fix x
    assume "x \<in> set (take i d)"
    then obtain j where "j < length (take i d)" and "take i d ! j = x"
      by (auto simp: in_set_conv_nth)
    with i(1) have "j < i" and "d ! j = x"
      by auto
    with i(4) show "\<not> truthy (snd x)"
      by auto
  qed
  ultimately have s: "\<exists>before k after. d = before @ (k, select_view d) # after
        \<and> truthy (select_view d) \<and> (\<forall>x\<in>set before. \<not> truthy (snd x))"
    using i(2,3) by metis
  have n: "List.find nonempty_buffer (map snd d) = Some (select_view d)"
    if "\<forall>v\<in>set (map snd d). truthy v \<longrightarrow> nonempty_buffer v"
  proof -
    from that have "\<And>v. v \<in> set (map snd d) \<Longrightarrow> nonempty_buffer v = truthy v"
      using nonempty_buffer_truthy by blast
    then have "List.find nonempty_buffer (map snd d) = List.find truthy (map snd d)"
      by (rule find_cong [OF refl])
    with f show ?thesis by simp
  qed
  from f s n show ?thesis
    by (auto simp: render_stl select_image_def)
qed

theorem first_true_view_is_selected_witness:
  "map_of views_front_empty ''front'' = Some PyNone \<and> \<not> truthy PyNone
   \<and> BytesIO [9] \<in> set (map snd views_front_empty) \<and> truthy (BytesIO [9])
   \<and> List.find truthy (map snd views_front_empty) = Some (BytesIO [2])
   \<and> select_view views_front_empty = BytesIO [2]
   \<and> views_front_empty =
       [(''side'', PyNone), (''front'', PyNone)] @ (''top'', BytesIO [2]) # [(''back'', BytesIO [9])]
   \<and> select_image (demo_env PyNone views_front_empty) ship (files demo_world) =
       Inr (Selected (BytesIO [2]))
   \<and> List.find nonempty_buffer (map snd views_front_empty) = Some (BytesIO [2])"
proof -
  have a: "\<forall>v. map_of views_front_empty ''front'' = Some v \<longrightarrow> \<not> truthy v"
    by (simp add: views_front_empty_def)
  have b: "\<exists>v\<in>set (map snd views_front_empty). truthy v"
    by (simp add: views_front_empty_def)
  have e: "map_of views_front_empty ''error'' = None"
    by (simp add: views_front_empty_def)
  have f: "List.find truthy (map snd views_front_empty) = Some (BytesIO [2])"
    by (simp add: views_front_empty_def)
  have n: "\<forall>v\<in>set (map snd views_front_empty). truthy v \<longrightarrow> nonempty_buffer v"
    by (simp add: views_front_empty_def)
  from first_true_view_is_selected [OF a b, of ship "demo_env PyNone views_front_empty" demo_world] n
  have "select_view views_front_empty = BytesIO [2]"
    and "select_image (demo_env PyNone views_front_empty) ship (files demo_world) =
       Inr (Selected (BytesIO [2]))"
    and "List.find nonempty_buffer (map snd views_front_empty) = Some (select_view views_front_empty)"
    by (simp_all add: f e demo_exts demo_env_def)
  then show ?thesis
    by (simp add: f) (simp add: views_front_empty_def)
qed

text \<open>
  Claim C4, as the specification states it, fails. In the answer below \<^verbatim>\<open>front\<close>
  holds a buffer with no bytes and \<^verbatim>\<open>side\<close> holds \<^verbatim>\<open>None\<close>: every view's
  buffer is empty or absent and there is no error descriptor, but \<^verbatim>\<open>render\<close>
  returns \<^verbatim>\<open>True\<close> and writes a thumbnail of no bytes to a path that did not
  exist.
\<close>

theorem zero_length_buffer_is_written:
  "map_of views_empty_buffer ''error'' = None
   \<and> \<not> nonempty_buffer (BytesIO []) \<and> \<not> nonempty_buffer PyNone
   \<and> List.find nonempty_buffer (map snd views_empty_buffer) = None
   \<and> render (demo_env PyNone views_empty_buffer) ship stl_only_world =
       (Inr True,
        \<lparr>files = stl_only_files @ [(''/models/thumbnails/ship.png'', File [])],
         console = [''Thumbnail saved to /models/thumbnails/ship.png'']\<rparr>)
   \<and> \<not> exists_path stl_only_files ''/models/thumbnails/ship.png''"
  by code_simp

text \<open>
  Claim C4, amended. When the answer of \<^verbatim>\<open>process_stl\<close> has no key \<^verbatim>\<open>error\<close>
  and every value in it fails Python's truth test (as \<^verbatim>\<open>None\<close> does; the mapping
  may hold no view at all), \<^verbatim>\<open>render\<close> returns \<^verbatim>\<open>False\<close>, reports the failure
  and writes no file. When some value passes the test, the value selected passes it and
  goes to the writing step; a buffer object passes it also with no bytes, and is then
  written.
\<close>

theorem all_views_false_fails:
  assumes "ext_lower (model_path pm) = ''.stl''"
    and "process_stl env (files w) (model_path pm) = Inr d"
    and "map_of d ''error'' = None"
  shows "((\<forall>v\<in>set (map snd d). \<not> truthy v) \<longrightarrow>
        render env pm w =
          (Inr False, print_line ''Model conversion failed or returned error: None'' w)
        \<and> files (snd (render env pm w)) = files w)
    \<and> ((\<exists>v\<in>set (map snd d). truthy v) \<longrightarrow>
        truthy (select_view d) \<and> render env pm w = write_thumbnail pm (select_view d) w)
    \<and> (\<forall>bs fs'. select_view d = BytesIO bs \<and> write_file (output_dir pm) bs (files w) = Inr fs'
          \<longrightarrow> fst (render env pm w) = Inr True \<and> files (snd (render env pm w)) = fs')"
proof (intro conjI impI allI)
  assume e: "\<forall>v\<in>set (map snd d). \<not> truthy v"
  have "\<not> truthy v" if "map_of d ''front'' = Some v" for v
  proof -
    from that have "(''front'', v) \<in> set d"
      by (rule map_of_SomeD)
    then have "v \<in> set (map snd d)"
      by force
    with e show ?thesis
      by blast
  qed
  then have "select_view d = first_truthy (map snd d)"
    by (simp add: select_view_def split: option.splits)
  with e have "select_view d = PyNone"
    by (simp add: first_truthy_none)
  with assms show "render env pm w =
          (Inr False, print_line ''Model conversion failed or returned error: None'' w)"
    by (simp add: render_stl write_thumbnail_def)
  then show "files (snd (render env pm w)) = files w"
    by (simp add: files_print_line)
next
  assume "\<exists>v\<in>set (map snd d). truthy v"
  then show "truthy (select_view d)"
    by (rule select_view_truthy)
  from assms show "render env pm w = write_thumbnail pm (select_view d) w"
    by (simp add: render_stl)
next
  fix bs fs'
  assume a: "select_view d = BytesIO bs \<and> write_file (output_dir pm) bs (files w) = Inr fs'"
  with assms show "fst (render env pm w) = Inr True"
    by (simp add: render_stl write_thumbnail_def)
  from a assms show "files (snd (render env pm w)) = fs'"
    by (simp add: render_stl write_thumbnail_def files_print_line)
qed

theorem all_views_false_fails_witness:
  "ext_lower (model_path ship) = ''.stl''
   \<and> process_stl (demo_env PyNone views_all_empty) (files demo_world) (model_path ship) =
       Inr views_all_empty
   \<and> map_of views_all_empty ''error'' = None
   \<and> \<not> truthy PyNone \<and> \<not> truthy (PyStr [])
   \<and> render (demo_env PyNone views_all_empty) ship demo_world =
       (Inr False,
        \<lparr>files = demo_files, console = [''Model conversion failed or returned error: None'']\<rparr>)
   \<and> map_of views_empty_buffer ''error'' = None
   \<and> truthy (BytesIO [])
   \<and> select_view views_empty_buffer = BytesIO []
   \<and> write_file (output_dir ship) [] (files stl_only_world) =
       Inr (stl_only_files @ [(''/models/thumbnails/ship.png'', File [])])
   \<and> fst (render (demo_env PyNone views_empty_buffer) ship stl_only_world) = Inr True
   \<and> files (snd (render (demo_env PyNone views_empty_buffer) ship stl_only_world)) =
       stl_only_files @ [(''/models/thumbnails/ship.png'', File [])]"
proof -
  have a: "process_stl (demo_env PyNone views_all_empty) (files demo_world) (model_path ship) =
       Inr views_all_empty"
    and a': "process_stl (demo_env PyNone views_empty_buffer) (files stl_only_world)
       (model_path ship) = Inr views_empty_buffer"
    by (simp_all add: demo_env_def)
  have b: "map_of views_all_empty ''error'' = None"
    and b': "map_of views_empty_buffer ''error'' = None"
    by (simp_all add: views_all_empty_def views_empty_buffer_def)
  have c: "\<forall>v\<in>set (map snd views_all_empty). \<not> truthy v"
    by (simp add: views_all_empty_def)
  have s: "select_view views_empty_buffer = BytesIO []"
    by (simp add: select_view_def views_empty_buffer_def)
  have wf: "write_file (output_dir ship) [] (files stl_only_world) =
       Inr (stl_only_files @ [(''/models/thumbnails/ship.png'', File [])])"
    unfolding demo_paths by code_simp
  from all_views_false_fails [OF demo_exts(3) a b] c
  have r1: "render (demo_env PyNone views_all_empty) ship demo_world =
       (Inr False,
        \<lparr>files = demo_files, console = [''Model conversion failed or returned error: None'']\<rparr>)"
    by (simp add: print_line_def demo_world_def)
  from all_views_false_fails [OF demo_exts(3) a' b'] s wf
  have r2: "fst (render (demo_env PyNone views_empty_buffer) ship stl_only_world) = Inr True"
    and r3: "files (snd (render (demo_env PyNone views_empty_buffer) ship stl_only_world)) =
       stl_only_files @ [(''/models/thumbnails/ship.png'', File [])]"
    by blast+
  from a b r1 b' s wf r2 r3 show ?thesis
    by (simp add: demo_exts)
qed

subsection \<open>The error descriptor of an STL answer\<close>

text \<open>
  Claim C5. When the answer of \<^verbatim>\<open>process_stl\<close> carries an error descriptor (a
  value under the key \<^verbatim>\<open>error\<close>), \<^verbatim>\<open>render\<close> returns \<^verbatim>\<open>False\<close>, writes
  no file, and the one line it prints is the text of the descriptor; for a descriptor
  that is a string, the string itself.
\<close>

theorem stl_error_descriptor_reported:
  assumes "ext_lower (model_path pm) = ''.stl''"
    and "process_stl env (files w) (model_path pm) = Inr d"
    and "map_of d ''error'' = Some descriptor"
  shows "fst (render env pm w) = Inr False
    \<and> files (snd (render env pm w)) = files w
    \<and> console (snd (render env pm w)) = console w @ [py_str descriptor]
    \<and> (\<forall>msg. descriptor = PyStr msg \<longrightarrow> console (snd (render env pm w)) = console w @ [msg])"
  using assms by (simp add: render_stl files_print_line console_print_line)

theorem stl_error_descriptor_reported_witness:
  "ext_lower (model_path ship) = ''.stl''
   \<and> process_stl (demo_env PyNone [(''error'', PyStr ''cannot read mesh'')]) (files demo_world)
        (model_path ship) = Inr [(''error'', PyStr ''cannot read mesh'')]
   \<and> map_of [(''error'', PyStr ''cannot read mesh'')] ''error'' = Some (PyStr ''cannot read mesh'')
   \<and> fst (render (demo_env PyNone [(''error'', PyStr ''cannot read mesh'')]) ship demo_world) =
       Inr False
   \<and> files (snd (render (demo_env PyNone [(''error'', PyStr ''cannot read mesh'')]) ship
        demo_world)) = demo_files
   \<and> console (snd (render (demo_env PyNone [(''error'', PyStr ''cannot read mesh'')]) ship
        demo_world)) = [''cannot read mesh'']"
proof -
  have a: "process_stl (demo_env PyNone [(''error'', PyStr ''cannot read mesh'')])
      (files demo_world) (model_path ship) = Inr [(''error'', PyStr ''cannot read mesh'')]"
    by (simp add: demo_env_def)
  have b: "map_of [(''error'', PyStr ''cannot read mesh'')] ''error'' =
      Some (PyStr ''cannot read mesh'')"
    by simp
  show ?thesis
    using stl_error_descriptor_reported [OF demo_exts(3) a b]
    by (simp add: demo_exts demo_env_def demo_world_def)
qed

text \<open>
  Claim C10. The test for the key \<^verbatim>\<open>error\<close> comes before every choice of a view:
  whenever the answer of \<^verbatim>\<open>process_stl\<close> holds that key, \<^verbatim>\<open>render\<close> selects
  no image, returns \<^verbatim>\<open>False\<close> and prints the value stored under the key, also when
  the mapping holds non-empty views, \<^verbatim>\<open>front\<close> among them.
\<close>

theorem stl_error_takes_precedence:
  assumes "ext_lower (model_path pm) = ''.stl''"
    and "process_stl env (files w) (model_path pm) = Inr d"
    and "map_of d ''error'' = Some err"
  shows "select_image env pm (files w) = Inr (Rejected (py_str err))
    \<and> render env pm w = (Inr False, print_line (py_str err) w)"
  using assms by (simp add: render_def select_image_def)

theorem stl_error_takes_precedence_witness:
  "ext_lower (model_path ship) = ''.stl''
   \<and> process_stl (demo_env PyNone views_with_error) (files demo_world) (model_path ship) =
       Inr views_with_error
   \<and> map_of views_with_error ''error'' = Some (PyStr ''mesh has no faces'')
   \<and> map_of views_with_error ''front'' = Some (BytesIO [3]) \<and> truthy (BytesIO [3])
   \<and> select_view views_with_error = BytesIO [3]
   \<and> select_image (demo_env PyNone views_with_error) ship (files demo_world) =
       Inr (Rejected ''mesh has no faces'')
   \<and> render (demo_env PyNone views_with_error) ship demo_world =
       (Inr False, \<lparr>files = demo_files, console = [''mesh has no faces'']\<rparr>)"
proof -
  have a: "process_stl (demo_env PyNone views_with_error) (files demo_world) (model_path ship) =
       Inr views_with_error"
    by (simp add: demo_env_def)
  have b: "map_of views_with_error ''error'' = Some (PyStr ''mesh has no faces'')"
    and c: "map_of views_with_error ''front'' = Some (BytesIO [3])"
    by (simp_all add: views_with_error_def)
  have d: "select_view views_with_error = BytesIO [3]"
    by (simp add: select_view_def c)
  show ?thesis
    using stl_error_takes_precedence [OF demo_exts(3) a b]
    by (simp add: b c d demo_exts demo_env_def print_line_def demo_world_def)
qed

subsection \<open>The writing step\<close>

text \<open>
  Claim C6. \<^verbatim>\<open>render\<close> changes the file system only when the image selected is an
  \<^verbatim>\<open>io.BytesIO\<close> object, and then by writing that buffer to the output path;
  whenever the value selected is anything else (\<^verbatim>\<open>None\<close>, a string, another
  object), \<^verbatim>\<open>render\<close> returns \<^verbatim>\<open>False\<close>, reports the value and writes no
  file.
\<close>

theorem only_buffers_are_written:
  "(files (snd (render env pm w)) \<noteq> files w \<longrightarrow>
      (\<exists>bs. select_image env pm (files w) = Inr (Selected (BytesIO bs))
        \<and> write_file (output_dir pm) bs (files w) = Inr (files (snd (render env pm w)))
        \<and> fst (render env pm w) = Inr True))
   \<and> (\<forall>v. select_image env pm (files w) = Inr (Selected v) \<and> (\<forall>bs. v \<noteq> BytesIO bs) \<longrightarrow>
        render env pm w =
          (Inr False, print_line (''Model conversion failed or returned error: '' @ py_str v) w)
        \<and> files (snd (render env pm w)) = files w)"
proof (intro conjI impI allI)
  assume ch: "files (snd (render env pm w)) \<noteq> files w"
  show "\<exists>bs. select_image env pm (files w) = Inr (Selected (BytesIO bs))
        \<and> write_file (output_dir pm) bs (files w) = Inr (files (snd (render env pm w)))
        \<and> fst (render env pm w) = Inr True"
  proof (cases "select_image env pm (files w)")
    case (Inl e)
    with ch show ?thesis
      by (simp add: render_def)
  next
    case (Inr s)
    show ?thesis
    proof (cases s)
      case (Rejected msg)
      with Inr ch show ?thesis
        by (simp add: render_def files_print_line)
    next
      case (Selected v)
      show ?thesis
      proof (cases v)
        case (BytesIO bs)
        with Inr Selected ch show ?thesis
          by (cases "write_file (output_dir pm) bs (files w)")
            (simp_all add: render_def write_thumbnail_def files_print_line)
      qed (use Inr Selected ch in \<open>simp_all add: render_def write_thumbnail_def files_print_line\<close>)
    qed
  qed
next
  fix v
  assume "select_image env pm (files w) = Inr (Selected v) \<and> (\<forall>bs. v \<noteq> BytesIO bs)"
  then show "render env pm w =
          (Inr False, print_line (''Model conversion failed or returned error: '' @ py_str v) w)"
    by (simp add: render_def write_thumbnail_not_buffer)
  then show "files (snd (render env pm w)) = files w"
    by (simp add: files_print_line)
qed

theorem only_buffers_are_written_witness:
  "select_image (demo_env (PyStr ''no faces'') []) chair (files demo_world) =
       Inr (Selected (PyStr ''no faces''))
   \<and> render (demo_env (PyStr ''no faces'') []) chair demo_world =
       (Inr False,
        \<lparr>files = demo_files,
         console = [''Model conversion failed or returned error: no faces'']\<rparr>)
   \<and> files (snd (render (demo_env (BytesIO [137, 80]) []) chair demo_world)) \<noteq> files demo_world
   \<and> select_image (demo_env (BytesIO [137, 80]) []) chair (files demo_world) =
       Inr (Selected (BytesIO [137, 80]))
   \<and> fst (render (demo_env (BytesIO [137, 80]) []) chair demo_world) = Inr True
   \<and> files (snd (render (demo_env (BytesIO [137, 80]) []) chair demo_world)) =
       demo_files @ [(''/models/thumbnails/chair.png'', File [137, 80])]"
proof -
  have s1: "select_image (demo_env (PyStr ''no faces'') []) chair (files demo_world) =
       Inr (Selected (PyStr ''no faces''))"
    and s2: "select_image (demo_env (BytesIO [137, 80]) []) chair (files demo_world) =
       Inr (Selected (BytesIO [137, 80]))"
    by (simp_all add: select_image_def demo_exts demo_env_def)
  have wr: "write_file (output_dir chair) [137, 80] demo_files =
      Inr (demo_files @ [(''/models/thumbnails/chair.png'', File [137, 80])])"
    unfolding demo_paths by code_simp
  have ch: "files (snd (render (demo_env (BytesIO [137, 80]) []) chair demo_world)) =
       demo_files @ [(''/models/thumbnails/chair.png'', File [137, 80])]"
    by (simp add: render_def s2 [unfolded files_demo_world] write_thumbnail_def wr
        files_demo_world files_print_line)
  then have ne: "files (snd (render (demo_env (BytesIO [137, 80]) []) chair demo_world)) \<noteq>
      files demo_world"
    by (simp add: files_demo_world)
  from only_buffers_are_written [of "demo_env (PyStr ''no faces'') []" chair demo_world] s1
  have r1: "render (demo_env (PyStr ''no faces'') []) chair demo_world =
       (Inr False,
        \<lparr>files = demo_files,
         console = [''Model conversion failed or returned error: no faces'']\<rparr>)"
    by (simp add: print_line_def demo_world_def)
  from only_buffers_are_written [of "demo_env (BytesIO [137, 80]) []" chair demo_world] ne s2
  have r2: "fst (render (demo_env (BytesIO [137, 80]) []) chair demo_world) = Inr True"
    by simp
  from s1 s2 ch ne r1 r2 show ?thesis
    by simp
qed

lemma write_file_result:
  "write_file p bs fs = Inr fs' \<Longrightarrow> fs' = AList.update p (File bs) fs"
  by (auto simp: write_file_def split: option.splits node.splits)

lemma write_file_again:
  assumes "write_file p bs fs = Inr fs'"
  shows "write_file p bs fs' = Inr fs'"
proof -
  from assms have fs': "fs' = AList.update p (File bs) fs"
    by (rule write_file_result)
  from assms have pc: "parent_check fs p = None" and nd: "map_of fs p \<noteq> Some Dir"
    by (auto simp: write_file_def split: option.splits node.splits)
  have "parent_check fs' p = None"
  proof (cases "dirname p = [] \<or> all_sep (dirname p)")
    case True
    then show ?thesis
      by (auto simp: parent_check_def Let_def)
  next
    case False
    with pc have d: "map_of fs (dirname p) = Some Dir"
      by (auto simp: parent_check_def Let_def split: option.splits node.splits)
    with nd have "dirname p \<noteq> p"
      by auto
    with False d show ?thesis
      by (simp add: parent_check_def Let_def fs' update_conv')
  qed
  then show ?thesis
    by (simp add: write_file_def fs' update_conv')
qed

lemma set_fst_splitext: "set (fst (splitext b)) \<subseteq> set b"
  by (auto simp: splitext_def Let_def dest: in_set_takeD)

lemma no_sep_basename: "CHR ''/'' \<notin> set (basename p)"
  by (auto simp: basename_def not_sep_def dest: set_takeWhileD)

lemma no_sep_model_name: "CHR ''/'' \<notin> set (fst (splitext (basename p)))"
  using set_fst_splitext [of "basename p"] no_sep_basename [of p] by auto

lemma output_dir_literal:
  assumes "dirname p \<noteq> []" and "last (dirname p) \<noteq> CHR ''/''"
  shows "output_dir (ProcessModel_fields p) =
    dirname p @ ''/thumbnails/'' @ fst (splitext (basename p)) @ ''.png''"
proof -
  let ?n = "fst (splitext (basename p))"
  have "hd (?n @ ''.png'') \<noteq> CHR ''/''"
    using no_sep_model_name [of p] by (cases ?n) auto
  with assms show ?thesis
    by (simp add: ProcessModel_fields_def Let_def join_def)
qed

lemma init_fields: "ProcessModel_init p w0 = (Inr pm, w1) \<Longrightarrow> pm = ProcessModel_fields p"
  by (auto simp: ProcessModel_init_def Let_def split: option.splits)

subsection \<open>What the constructor and \<^verbatim>\<open>render\<close> change in the file system\<close>

lemma write_thumbnail_elsewhere:
  "write_thumbnail pm v w = (r, w') \<Longrightarrow> q \<noteq> output_dir pm \<Longrightarrow>
     map_of (files w') q = map_of (files w) q"
  by (cases v)
    (auto simp: write_thumbnail_def files_print_line update_conv'
      dest!: write_file_result split: sum.splits)

lemma render_elsewhere:
  "render env pm w = (r, w') \<Longrightarrow> q \<noteq> output_dir pm \<Longrightarrow>
     map_of (files w') q = map_of (files w) q"
  by (auto simp: render_def files_print_line split: sum.splits selection.splits
      dest: write_thumbnail_elsewhere)

lemma suffix_join: "suffix b (join a b)"
  by (auto simp: join_def suffix_def)

lemma output_dir_png: "suffix ''.png'' (output_dir (ProcessModel_fields p))"
proof -
  have "suffix ''.png'' (fst (splitext (basename p)) @ ''.png'')"
    by (simp add: suffix_def)
  then show ?thesis
    using suffix_join suffix_order.trans
    by (fastforce simp: ProcessModel_fields_def Let_def)
qed

lemma construct_and_render_isfile:
  assumes "construct_and_render env p w = (r, w')" and "\<not> suffix ''.png'' q"
  shows "isfile (files w') q = isfile (files w) q"
proof (cases "ProcessModel_init p w")
  case (Pair ri w1)
  then have od: "only_dirs_added (files w) (files w1)"
    by (rule init_only_dirs)
  show ?thesis
  proof (cases ri)
    case (Inl e)
    with Pair assms(1) have "w' = w1"
      by (simp add: construct_and_render_def)
    with od show ?thesis
      by (simp add: only_dirs_added_isfile)
  next
    case (Inr pm)
    with Pair have pm: "pm = ProcessModel_fields p"
      by (simp add: init_fields)
    from Inr Pair assms(1) have "render env pm w1 = (r, w')"
      by (simp add: construct_and_render_def)
    moreover from assms(2) pm have "q \<noteq> output_dir pm"
      using output_dir_png by auto
    ultimately have "map_of (files w') q = map_of (files w1) q"
      by (rule render_elsewhere)
    then have "isfile (files w') q = isfile (files w1) q"
      by (simp add: isfile_def)
    with od show ?thesis
      by (simp add: only_dirs_added_isfile)
  qed
qed

lemma ext_suffix_basename:
  assumes "CHR ''.'' \<in> set b"
  shows "suffix (CHR ''.'' # rev (takeWhile not_dot (rev b))) b"
proof -
  from assms have "dropWhile not_dot (rev b) \<noteq> []"
    by (auto simp: not_dot_def dropWhile_eq_Nil_conv)
  then obtain c cs where d: "dropWhile not_dot (rev b) = c # cs"
    by (cases "dropWhile not_dot (rev b)") auto
  then have "\<not> not_dot c"
    by (metis hd_dropWhile list.distinct(1) list.sel(1))
  then have c: "c = CHR ''.''"
    by (simp add: not_dot_def)
  have "rev b = takeWhile not_dot (rev b) @ dropWhile not_dot (rev b)"
    by simp
  with d c have "rev b = takeWhile not_dot (rev b) @ CHR ''.'' # cs"
    by simp
  then have "b = rev cs @ CHR ''.'' # rev (takeWhile not_dot (rev b))"
    by (metis rev_append rev.simps(2) rev_rev_ident append.assoc append_Cons append_Nil)
  then show ?thesis
    by (metis suffixI)
qed

lemma suffix_basename: "suffix (basename p) p"
  by (metis basename_def rev_append rev_rev_ident suffixI takeWhile_dropWhile_id)

lemma splitext_suffix: "suffix (snd (splitext p)) p"
proof (cases "CHR ''.'' \<in> set (basename p)")
  case True
  then have "suffix (CHR ''.'' # rev (takeWhile not_dot (rev (basename p)))) p"
    using ext_suffix_basename suffix_basename suffix_order.trans by blast
  then show ?thesis
    by (simp add: splitext_def Let_def)
next
  case False
  then show ?thesis
    by (simp add: splitext_def)
qed

lemma lower_png: "lower ''.png'' = ''.png''"
  by code_simp

lemma supported_not_png:
  assumes "ext_lower f \<in> SUPPORTED_EXTS"
  shows "\<not> suffix ''.png'' (join path f)"
proof
  assume png: "suffix ''.png'' (join path f)"
  have "suffix (snd (splitext f)) (join path f)"
    using splitext_suffix suffix_join suffix_order.trans by blast
  moreover from assms have "length (snd (splitext f)) = 4"
    by (auto simp: ext_lower_def SUPPORTED_EXTS_def lower_def dest!: arg_cong [where f = length])
  ultimately have "snd (splitext f) = ''.png''"
    using png by (auto simp: suffix_def)
  with assms show False
    by (simp add: ext_lower_def lower_png SUPPORTED_EXTS_def)
qed

lemma process_entries_refines:
  assumes "\<forall>f\<in>set names. ext_lower f \<in> SUPPORTED_EXTS \<longrightarrow>
      isfile (files w) (join path f) = isfile fs0 (join path f)"
  shows "process_entries env path names w =
    spec_thumbnail_each env
      (map (join path)
        (filter (\<lambda>f. isfile fs0 (join path f) \<and> ext_lower f \<in> SUPPORTED_EXTS) names)) w"
  using assms
proof (induction names arbitrary: w)
  case Nil
  then show ?case by simp
next
  case (Cons f rest)
  show ?case
  proof (cases "isfile fs0 (join path f) \<and> ext_lower f \<in> SUPPORTED_EXTS")
    case False
    with Cons.prems have n: "\<not> (isfile (files w) (join path f) \<and> ext_lower f \<in> SUPPORTED_EXTS)"
      by auto
    from Cons.prems have "\<forall>g\<in>set rest. ext_lower g \<in> SUPPORTED_EXTS \<longrightarrow>
        isfile (files w) (join path g) = isfile fs0 (join path g)"
      by simp
    then have "process_entries env path rest w =
        spec_thumbnail_each env
          (map (join path)
            (filter (\<lambda>f. isfile fs0 (join path f) \<and> ext_lower f \<in> SUPPORTED_EXTS) rest)) w"
      by (rule Cons.IH)
    with False n show ?thesis
      by (auto simp: Let_def)
  next
    case True
    with Cons.prems have cand: "isfile (files w) (join path f) \<and> ext_lower f \<in> SUPPORTED_EXTS"
      by auto
    obtain r w' where car: "construct_and_render env (join path f)
        (print_line (''Processing file: '' @ join path f) w) = (r, w')"
      by (cases "construct_and_render env (join path f)
        (print_line (''Processing file: '' @ join path f) w)") auto
    show ?thesis
    proof (cases r)
      case (Inl e)
      with True cand car show ?thesis
        by (simp add: Let_def)
    next
      case (Inr b)
      have "\<forall>g\<in>set rest. ext_lower g \<in> SUPPORTED_EXTS \<longrightarrow>
          isfile (files w') (join path g) = isfile fs0 (join path g)"
      proof (intro ballI impI)
        fix g
        assume g: "g \<in> set rest" and e: "ext_lower g \<in> SUPPORTED_EXTS"
        from e have "\<not> suffix ''.png'' (join path g)"
          by (rule supported_not_png)
        with car have "isfile (files w') (join path g) =
            isfile (files (print_line (''Processing file: '' @ join path f) w)) (join path g)"
          by (rule construct_and_render_isfile)
        with g e Cons.prems show "isfile (files w') (join path g) = isfile fs0 (join path g)"
          by (simp add: files_print_line)
      qed
      then have "process_entries env path rest w' =
          spec_thumbnail_each env
            (map (join path)
              (filter (\<lambda>f. isfile fs0 (join path f) \<and> ext_lower f \<in> SUPPORTED_EXTS) rest)) w'"
        by (rule Cons.IH)
      with True cand car Inr show ?thesis
        by (simp add: Let_def)
    qed
  qed
qed

text \<open>
  In the table of the model a file system that is ready stays ready, and no file
  operation of the script fails on it. (What else can make a real file operation fail,
  such as permissions, is outside the table.)
\<close>

lemma basename_join_thumbnails: "basename (join d ''thumbnails'') = ''thumbnails''"
proof -
  have "join d ''thumbnails'' = d @ ''thumbnails'' \<and> (d = [] \<or> last d = CHR ''/'')
      \<or> join d ''thumbnails'' = (d @ ''/'') @ ''thumbnails''"
    by (auto simp: join_def)
  then obtain e where e: "join d ''thumbnails'' = e @ ''thumbnails''"
    and l: "e = [] \<or> last e = CHR ''/''"
    by auto
  from l have "takeWhile not_sep (rev ''thumbnails'' @ rev e) = rev ''thumbnails''"
    by (cases e rule: rev_cases) (auto simp: not_sep_def)
  then show ?thesis
    unfolding e basename_def by (simp only: rev_append rev_rev_ident)
qed

lemma last_join: "b \<noteq> [] \<Longrightarrow> last (join a b) = last b"
  by (auto simp: join_def)

lemma thumbnails_dir_last: "last (thumbnails_dir (ProcessModel_fields c)) = CHR ''s''"
  by (simp add: ProcessModel_fields_def Let_def last_join)

lemma output_dir_last: "last (output_dir (ProcessModel_fields c)) = CHR ''g''"
  by (simp add: ProcessModel_fields_def Let_def last_join)

lemma thumbnails_not_output:
  "thumbnails_dir (ProcessModel_fields c) \<noteq> output_dir (ProcessModel_fields c')"
  using thumbnails_dir_last [of c] output_dir_last [of c'] by auto

lemma thumbnails_dir_nonempty: "thumbnails_dir (ProcessModel_fields c) \<noteq> []"
  by (auto simp: ProcessModel_fields_def Let_def join_def)

lemma dirname_output_dir:
  "dirname (output_dir (ProcessModel_fields c)) = thumbnails_dir (ProcessModel_fields c)"
proof -
  let ?t = "thumbnails_dir (ProcessModel_fields c)"
  let ?x = "fst (splitext (basename c)) @ ''.png''"
  have t: "?t \<noteq> []" "last ?t = CHR ''s''"
    by (simp_all add: thumbnails_dir_nonempty thumbnails_dir_last)
  have x: "CHR ''/'' \<notin> set ?x"
    using no_sep_model_name [of c] by simp
  then have hx: "hd ?x \<noteq> CHR ''/''"
    by (cases "fst (splitext (basename c))") auto
  have o: "output_dir (ProcessModel_fields c) = ?t @ CHR ''/'' # ?x"
    using t hx by (simp add: ProcessModel_fields_def Let_def join_def)
  have "takeWhile not_sep (rev ?x) = rev ?x"
    using x by (auto simp: not_sep_def)
  then have "dropWhile not_sep (rev ?x @ CHR ''/'' # rev ?t) = CHR ''/'' # rev ?t"
    using x by (subst dropWhile_append) (auto simp: not_sep_def dropWhile_eq_Nil_conv)
  then have rh: "raw_head (?t @ CHR ''/'' # ?x) = ?t @ ''/''"
    by (simp add: raw_head_def)
  have ns: "\<not> all_sep (?t @ ''/'')"
    using t by (cases ?t rule: rev_cases) (auto simp: all_sep_def not_sep_def)
  have "rstrip_sep (?t @ ''/'') = ?t"
    using t by (cases ?t rule: rev_cases) (auto simp: rstrip_sep_def)
  with rh ns show ?thesis
    unfolding o dirname_def by (simp add: Let_def)
qed

lemma makedirs_split_thumbnails:
  "makedirs_split (thumbnails_dir (ProcessModel_fields c)) =
     (dirname (thumbnails_dir (ProcessModel_fields c)), ''thumbnails'')"
  by (simp add: makedirs_split_def path_split_def ProcessModel_fields_def Let_def
      basename_join_thumbnails)

lemma only_dirs_added_isdir: "only_dirs_added fs fs' \<Longrightarrow> isdir fs q \<Longrightarrow> isdir fs' q"
  unfolding only_dirs_added_def isdir_def by (metis option.distinct(1))

lemma makedirs_ready:
  assumes "io_ready fs c"
  shows "fst (makedirs (thumbnails_dir (ProcessModel_fields c)) fs) = None
    \<and> isdir (snd (makedirs (thumbnails_dir (ProcessModel_fields c)) fs))
        (thumbnails_dir (ProcessModel_fields c))
    \<and> (\<forall>q. q \<noteq> thumbnails_dir (ProcessModel_fields c) \<longrightarrow>
          map_of (snd (makedirs (thumbnails_dir (ProcessModel_fields c)) fs)) q = map_of fs q)"
proof -
  let ?t = "thumbnails_dir (ProcessModel_fields c)"
  from assms have par: "dirname ?t = [] \<or> isdir fs (dirname ?t)" and nf: "\<not> isfile fs ?t"
    by (simp_all add: io_ready_def Let_def)
  from par have "\<not> (dirname ?t \<noteq> [] \<and> ''thumbnails'' \<noteq> [] \<and> \<not> exists_path fs (dirname ?t))"
    by (auto simp: isdir_def exists_path_def)
  then have m: "makedirs ?t fs = mkdir_exist_ok ?t fs"
    by (subst makedirs.simps) (auto simp: makedirs_split_thumbnails Let_def)
  from par have pc: "parent_check fs ?t = None"
    by (auto simp: parent_check_def Let_def isdir_def)
  show ?thesis
  proof (cases "map_of fs ?t")
    case None
    with pc show ?thesis
      by (simp add: m mkdir_exist_ok_def mkdir_def exists_path_def isdir_def update_conv')
  next
    case (Some n)
    with nf have "n = Dir"
      by (cases n) (simp_all add: isfile_def)
    with Some pc show ?thesis
      by (simp add: m mkdir_exist_ok_def mkdir_def exists_path_def isdir_def)
  qed
qed

lemma console_write_thumbnail:
  "write_thumbnail pm v w = (r, w') \<Longrightarrow> \<exists>extra. console w' = console w @ extra"
  by (cases v) (auto simp: write_thumbnail_def print_line_def split: sum.splits)

lemma console_render:
  "render env pm w = (r, w') \<Longrightarrow> \<exists>extra. console w' = console w @ extra"
  by (auto simp: render_def print_line_def split: sum.splits selection.splits
      dest: console_write_thumbnail)

lemma console_construct_and_render:
  assumes "construct_and_render env c w = (r, w')"
  shows "\<exists>extra. console w' = console w @ extra"
proof (cases "ProcessModel_init c w")
  case (Pair ri w1)
  then have c1: "console w1 = console w"
    by (auto simp: ProcessModel_init_def Let_def split: option.splits)
  show ?thesis
  proof (cases ri)
    case (Inl e)
    with Pair assms c1 show ?thesis
      by (simp add: construct_and_render_def)
  next
    case (Inr pm)
    with Pair assms have "render env pm w1 = (r, w')"
      by (simp add: construct_and_render_def)
    then show ?thesis
      using c1 by (auto dest: console_render)
  qed
qed

lemma select_image_returns:
  assumes "never_raises env" and "isfile fs (model_path pm)"
  shows "\<exists>s. select_image env pm fs = Inr s"
proof -
  from assms(2) obtain bs where "read_file fs (model_path pm) = Inr bs"
    by (auto simp: isfile_def read_file_def split: option.splits node.splits)
  moreover from assms(1) obtain v where "process_obj env fs (model_path pm) = Inr v"
    unfolding never_raises_def by blast
  moreover from assms(1) obtain d where "process_stl env fs (model_path pm) = Inr d"
    unfolding never_raises_def by blast
  moreover from assms(1) obtain vg where "glb_to_image env bs = Inr vg"
    unfolding never_raises_def by blast
  ultimately show ?thesis
    by (simp add: select_image_def Let_def split: option.splits)
qed

lemma render_at_output:
  assumes "render env pm w = (r, w')"
  shows "map_of (files w') (output_dir pm) = map_of (files w) (output_dir pm)
    \<or> (\<exists>bs. map_of (files w') (output_dir pm) = Some (File bs))"
proof (cases "select_image env pm (files w)")
  case (Inl e)
  with assms show ?thesis
    by (auto simp: render_def)
next
  case (Inr s)
  show ?thesis
  proof (cases s)
    case (Rejected msg)
    with Inr assms show ?thesis
      by (auto simp: render_def files_print_line)
  next
    case (Selected v)
    with Inr assms show ?thesis
      by (cases v)
        (auto simp: render_def write_thumbnail_def files_print_line update_conv'
          dest!: write_file_result split: sum.splits)
  qed
qed

lemma construct_and_render_keeps_ready:
  assumes rdy: "io_ready (files w) c" and car: "construct_and_render env c w = (r, w')"
  shows "isdir (files w') (thumbnails_dir (ProcessModel_fields c))
    \<and> (\<forall>c'. io_ready (files w) c' \<longrightarrow> io_ready (files w') c')"
proof -
  let ?pm = "ProcessModel_fields c"
  let ?t = "thumbnails_dir ?pm"
  let ?o = "output_dir ?pm"
  let ?fs1 = "snd (makedirs ?t (files w))"
  let ?w1 = "w\<lparr>files := ?fs1\<rparr>"
  from makedirs_ready [OF rdy]
  have mk: "fst (makedirs ?t (files w)) = None" and td: "isdir ?fs1 ?t"
    and same1: "\<And>q. q \<noteq> ?t \<Longrightarrow> map_of ?fs1 q = map_of (files w) q"
    by auto
  from mk have init: "ProcessModel_init c w = (Inr ?pm, ?w1)"
    by (simp add: ProcessModel_init_def Let_def)
  with car have rw: "render env ?pm ?w1 = (r, w')"
    by (simp add: construct_and_render_def)
  have ot: "?o \<noteq> ?t"
    using thumbnails_not_output [of c c] by simp
  from rdy have "\<not> isdir (files w) ?o"
    by (simp add: io_ready_def Let_def)
  with ot have od1: "\<not> isdir ?fs1 ?o"
    by (simp add: isdir_def same1)
  have same2: "map_of (files w') q = map_of ?fs1 q" if "q \<noteq> ?o" for q
    using render_elsewhere [OF rw that] by simp
  have at_o: "\<not> isdir (files w') ?o"
    using render_at_output [OF rw] od1 by (auto simp: isdir_def)
  from td ot have td2: "isdir (files w') ?t"
    by (simp add: isdir_def same2)
  have keep: "io_ready (files w') c'" if r': "io_ready (files w) c'" for c'
  proof -
    let ?t' = "thumbnails_dir (ProcessModel_fields c')"
    let ?o' = "output_dir (ProcessModel_fields c')"
    from r' have a: "dirname ?t' = [] \<or> isdir (files w) (dirname ?t')"
      and b: "\<not> isfile (files w) ?t'" and c: "\<not> isdir (files w) ?o'"
      by (simp_all add: io_ready_def Let_def)
    have a1: "dirname ?t' = [] \<or> isdir ?fs1 (dirname ?t')"
      using a td same1 [of "dirname ?t'"] by (cases "dirname ?t' = ?t") (auto simp: isdir_def)
    then have a2: "dirname ?t' = [] \<or> isdir (files w') (dirname ?t')"
      using od1 same2 [of "dirname ?t'"] by (cases "dirname ?t' = ?o") (auto simp: isdir_def)
    have b1: "\<not> isfile ?fs1 ?t'"
      using b td same1 [of ?t'] by (cases "?t' = ?t") (auto simp: isfile_def isdir_def)
    have "?t' \<noteq> ?o"
      by (rule thumbnails_not_output)
    with b1 have b2: "\<not> isfile (files w') ?t'"
      by (simp add: isfile_def same2)
    have "?o' \<noteq> ?t"
      using thumbnails_not_output [of c c'] by simp
    with c have c1: "\<not> isdir ?fs1 ?o'"
      by (simp add: isdir_def same1)
    have c2: "\<not> isdir (files w') ?o'"
      using c1 at_o same2 [of ?o'] by (cases "?o' = ?o") (auto simp: isdir_def)
    from a2 b2 c2 show ?thesis
      by (simp add: io_ready_def Let_def)
  qed
  from td2 keep show ?thesis
    by simp
qed

lemma construct_and_render_returns:
  assumes nr: "never_raises env" and rdy: "io_ready (files w) c" and isf: "isfile (files w) c"
  shows "\<exists>b w'. construct_and_render env c w = (Inr b, w')"
proof -
  let ?pm = "ProcessModel_fields c"
  let ?t = "thumbnails_dir ?pm"
  let ?o = "output_dir ?pm"
  let ?fs1 = "snd (makedirs ?t (files w))"
  let ?w1 = "w\<lparr>files := ?fs1\<rparr>"
  from makedirs_ready [OF rdy]
  have mk: "fst (makedirs ?t (files w)) = None" and td: "isdir ?fs1 ?t"
    and same1: "\<And>q. q \<noteq> ?t \<Longrightarrow> map_of ?fs1 q = map_of (files w) q"
    by auto
  from mk have init: "ProcessModel_init c w = (Inr ?pm, ?w1)"
    by (simp add: ProcessModel_init_def Let_def)
  have ot: "?o \<noteq> ?t"
    using thumbnails_not_output [of c c] by simp
  from rdy have "\<not> isdir (files w) ?o"
    by (simp add: io_ready_def Let_def)
  with ot have od1: "\<not> isdir ?fs1 ?o"
    by (simp add: isdir_def same1)
  from rdy have "\<not> isfile (files w) ?t"
    by (simp add: io_ready_def Let_def)
  with isf have "c \<noteq> ?t"
    by auto
  then have "map_of ?fs1 c = map_of (files w) c"
    by (rule same1)
  with isf have "isfile ?fs1 c"
    by (simp add: isfile_def)
  then have "isfile ?fs1 (model_path ?pm)"
    by (simp add: ProcessModel_fields_def Let_def)
  with nr obtain s where sel: "select_image env ?pm ?fs1 = Inr s"
    using select_image_returns by blast
  have pc: "parent_check ?fs1 ?o = None"
    using td thumbnails_dir_nonempty [of c]
    by (simp add: parent_check_def dirname_output_dir isdir_def Let_def)
  have wf: "write_file ?o bs ?fs1 = Inr (AList.update ?o (File bs) ?fs1)" for bs
    using pc od1 by (auto simp: write_file_def isdir_def split: option.splits node.splits)
  have "\<exists>b w'. render env ?pm ?w1 = (Inr b, w')"
  proof (cases s)
    case (Rejected msg)
    with sel show ?thesis
      by (auto simp: render_def)
  next
    case (Selected v)
    with sel wf show ?thesis
      by (cases v) (auto simp: render_def write_thumbnail_def)
  qed
  with init show ?thesis
    by (auto simp: construct_and_render_def)
qed

lemma makedirs_existing:
  assumes "isdir fs (thumbnails_dir (ProcessModel_fields c))" and "io_ready fs c"
  shows "makedirs (thumbnails_dir (ProcessModel_fields c)) fs = (None, fs)"
proof -
  let ?t = "thumbnails_dir (ProcessModel_fields c)"
  from assms(2) have par: "dirname ?t = [] \<or> isdir fs (dirname ?t)"
    by (simp add: io_ready_def Let_def)
  then have "\<not> (dirname ?t \<noteq> [] \<and> ''thumbnails'' \<noteq> [] \<and> \<not> exists_path fs (dirname ?t))"
    by (auto simp: isdir_def exists_path_def)
  then have m: "makedirs ?t fs = mkdir_exist_ok ?t fs"
    by (subst makedirs.simps) (auto simp: makedirs_split_thumbnails Let_def)
  from par have pc: "parent_check fs ?t = None"
    by (auto simp: parent_check_def Let_def isdir_def)
  with assms(1) show ?thesis
    by (simp add: m mkdir_exist_ok_def mkdir_def exists_path_def isdir_def)
qed

lemma thumbnail_each_completes:
  assumes "never_raises env"
    and "\<forall>c\<in>set cs. \<not> suffix ''.png'' c \<and> isfile (files w) c \<and> io_ready (files w) c"
  shows "fst (spec_thumbnail_each env cs w) = None
    \<and> set (console w) \<subseteq> set (console (snd (spec_thumbnail_each env cs w)))
    \<and> (\<forall>c\<in>set cs. ''Processing file: '' @ c \<in> set (console (snd (spec_thumbnail_each env cs w))))"
  using assms(2)
proof (induction cs arbitrary: w)
  case Nil
  then show ?case by simp
next
  case (Cons c cs)
  let ?w0 = "print_line (''Processing file: '' @ c) w"
  from Cons.prems have c: "isfile (files ?w0) c" "io_ready (files ?w0) c"
    by (simp_all add: files_print_line)
  from construct_and_render_returns [OF assms(1) c(2) c(1)]
  obtain b w' where car: "construct_and_render env c ?w0 = (Inr b, w')"
    by blast
  from construct_and_render_keeps_ready [OF c(2) car]
  have keep: "\<And>c'. io_ready (files ?w0) c' \<Longrightarrow> io_ready (files w') c'"
    by blast
  from console_construct_and_render [OF car]
  obtain extra where con: "console w' = console w @ (''Processing file: '' @ c) # extra"
    by (auto simp: console_print_line)
  have "\<forall>c'\<in>set cs. \<not> suffix ''.png'' c' \<and> isfile (files w') c' \<and> io_ready (files w') c'"
  proof
    fix c'
    assume c': "c' \<in> set cs"
    with Cons.prems have p: "\<not> suffix ''.png'' c'" "isfile (files ?w0) c'" "io_ready (files ?w0) c'"
      by (simp_all add: files_print_line)
    from construct_and_render_isfile [OF car p(1)] p(2) keep [OF p(3)] p(1)
    show "\<not> suffix ''.png'' c' \<and> isfile (files w') c' \<and> io_ready (files w') c'"
      by simp
  qed
  then have ih: "fst (spec_thumbnail_each env cs w') = None
    \<and> set (console w') \<subseteq> set (console (snd (spec_thumbnail_each env cs w')))
    \<and> (\<forall>c\<in>set cs. ''Processing file: '' @ c \<in> set (console (snd (spec_thumbnail_each env cs w'))))"
    by (rule Cons.IH)
  with car con show ?case
    by auto
qed

lemma listdir_isdir:
  "isdir fs p \<Longrightarrow> listdir fs p =
     Inr (map basename (filter (\<lambda>q. basename q \<noteq> [] \<and> join p (basename q) = q) (map fst fs)))"
  by (simp add: isdir_def listdir_def)

lemma process_path_directory:
  assumes "isdir (files w) path"
  shows "process_path env path w =
    spec_thumbnail_each env (spec_walk (files w) path)
      (print_line (''Processing folder: '' @ path) w)"
proof -
  let ?w1 = "print_line (''Processing folder: '' @ path) w"
  from assms obtain names where l: "listdir (files w) path = Inr names"
    by (simp add: listdir_isdir)
  have "process_entries env path names ?w1 =
    spec_thumbnail_each env
      (map (join path)
        (filter (\<lambda>f. isfile (files w) (join path f) \<and> ext_lower f \<in> SUPPORTED_EXTS) names)) ?w1"
    by (rule process_entries_refines) (simp add: files_print_line)
  with assms l show ?thesis
    by (simp add: process_path_def spec_walk_def Let_def files_print_line)
qed

lemma spec_walk_members:
  assumes "c \<in> set (spec_walk fs path)"
  shows "isfile fs c \<and> \<not> isdir fs c \<and> \<not> suffix ''.png'' c
    \<and> (\<exists>f. c = join path f \<and> f \<noteq> [] \<and> CHR ''/'' \<notin> set f \<and> ext_lower f \<in> SUPPORTED_EXTS)"
proof -
  from assms obtain names where l: "listdir fs path = Inr names"
    by (cases "listdir fs path") (auto simp: spec_walk_def)
  with assms obtain f where f: "f \<in> set names" "c = join path f" "isfile fs c"
      "ext_lower f \<in> SUPPORTED_EXTS"
    by (auto simp: spec_walk_def)
  from l f(1) have "f \<noteq> [] \<and> CHR ''/'' \<notin> set f"
    by (auto simp: listdir_def no_sep_basename split: option.splits node.splits)
  moreover from f(3) have "\<not> isdir fs c"
    by (auto simp: isfile_def isdir_def split: option.splits node.splits)
  moreover from f(2,4) have "\<not> suffix ''.png'' c"
    by (simp add: supported_not_png)
  ultimately show ?thesis
    using f by blast
qed








subsection \<open>The output path and repeated calls\<close>

lemma render_success:
  assumes "render env pm w = (Inr True, w')"
  shows "\<exists>bs. select_image env pm (files w) = Inr (Selected (BytesIO bs))
    \<and> write_file (output_dir pm) bs (files w) = Inr (files w')
    \<and> console w' = console w @ [''Thumbnail saved to '' @ output_dir pm]"
proof -
  from assms obtain v where sel: "select_image env pm (files w) = Inr (Selected v)"
    and wt: "write_thumbnail pm v w = (Inr True, w')"
    by (auto simp: render_def split: sum.splits selection.splits)
  from wt obtain bs where v: "v = BytesIO bs"
    by (cases v) (auto simp: write_thumbnail_def)
  from wt v obtain fs' where wf: "write_file (output_dir pm) bs (files w) = Inr fs'"
    and w': "w' = print_line (''Thumbnail saved to '' @ output_dir pm) (w\<lparr>files := fs'\<rparr>)"
    by (auto simp: write_thumbnail_def split: sum.splits)
  from sel v wf w' show ?thesis
    by (simp add: print_line_def)
qed

lemma render_again:
  assumes "write_file (output_dir pm) bs (files w) = Inr (files w)"
    and "select_image env pm (files w) = Inr (Selected (BytesIO bs))"
  shows "fst (render env pm w) = Inr True \<and> files (snd (render env pm w)) = files w"
  using assms by (simp add: render_def write_thumbnail_def files_print_line)

text \<open>
  Claim C7. The output path of a model is
  \<^verbatim>\<open>join(join(dirname(path), "thumbnails"), name + ".png")\<close>, that is
  \<^verbatim>\<open><model_dir>/thumbnails/<model_name>.png\<close>. Whenever \<^verbatim>\<open>render\<close> returns
  \<^verbatim>\<open>True\<close>, the image selected was a buffer, the file at the output path now holds
  exactly its bytes whatever was there before, and no other path has changed. When
  \<^verbatim>\<open>render\<close> is called again and the renderer answers the same, it returns
  \<^verbatim>\<open>True\<close> again and leaves the file system as the first call left it: the same
  bytes at the same path, no further file. The same holds when the object is constructed
  anew for the second call, on a file system that was ready for the model.
\<close>

theorem thumbnail_written_to_target:
  "output_dir (ProcessModel_fields p) =
      join (join (dirname p) ''thumbnails'') (fst (splitext (basename p)) @ ''.png'')
   \<and> (dirname p \<noteq> [] \<and> last (dirname p) \<noteq> CHR ''/'' \<longrightarrow>
        output_dir (ProcessModel_fields p) =
          dirname p @ ''/thumbnails/'' @ fst (splitext (basename p)) @ ''.png'')
   \<and> (\<forall>pm0 w1. ProcessModel_init p w0 = (Inr pm0, w1) \<longrightarrow> pm0 = ProcessModel_fields p)
   \<and> (render env pm w = (Inr True, w') \<longrightarrow>
        (\<exists>bs. select_image env pm (files w) = Inr (Selected (BytesIO bs))
           \<and> files w' = AList.update (output_dir pm) (File bs) (files w)
           \<and> map_of (files w') (output_dir pm) = Some (File bs)
           \<and> (\<forall>q. q \<noteq> output_dir pm \<longrightarrow> map_of (files w') q = map_of (files w) q)
           \<and> console w' = console w @ [''Thumbnail saved to '' @ output_dir pm]
           \<and> (select_image env pm (files w') = select_image env pm (files w) \<longrightarrow>
                fst (render env pm w') = Inr True
                \<and> files (snd (render env pm w')) = files w')))
   \<and> (io_ready (files w0) p \<and> construct_and_render env p w0 = (Inr True, w2) \<longrightarrow>
        (\<exists>bs. map_of (files w2) (output_dir (ProcessModel_fields p)) = Some (File bs)
           \<and> (select_image env (ProcessModel_fields p) (files w2) = Inr (Selected (BytesIO bs))
                \<longrightarrow> fst (construct_and_render env p w2) = Inr True
                  \<and> files (snd (construct_and_render env p w2)) = files w2)))"
proof (intro conjI impI allI)
  show "output_dir (ProcessModel_fields p) =
      join (join (dirname p) ''thumbnails'') (fst (splitext (basename p)) @ ''.png'')"
    by (simp add: ProcessModel_fields_def Let_def)
next
  assume "dirname p \<noteq> [] \<and> last (dirname p) \<noteq> CHR ''/''"
  then show "output_dir (ProcessModel_fields p) =
          dirname p @ ''/thumbnails/'' @ fst (splitext (basename p)) @ ''.png''"
    by (simp add: output_dir_literal)
next
  fix pm0 w1
  assume "ProcessModel_init p w0 = (Inr pm0, w1)"
  then show "pm0 = ProcessModel_fields p"
    by (rule init_fields)
next
  assume "render env pm w = (Inr True, w')"
  from render_success [OF this]
  obtain bs where sel: "select_image env pm (files w) = Inr (Selected (BytesIO bs))"
    and wf: "write_file (output_dir pm) bs (files w) = Inr (files w')"
    and con: "console w' = console w @ [''Thumbnail saved to '' @ output_dir pm]"
    by blast
  from wf have fs': "files w' = AList.update (output_dir pm) (File bs) (files w)"
    by (rule write_file_result)
  have again: "write_file (output_dir pm) bs (files w') = Inr (files w')"
    using wf by (rule write_file_again)
  show "\<exists>bs. select_image env pm (files w) = Inr (Selected (BytesIO bs))
           \<and> files w' = AList.update (output_dir pm) (File bs) (files w)
           \<and> map_of (files w') (output_dir pm) = Some (File bs)
           \<and> (\<forall>q. q \<noteq> output_dir pm \<longrightarrow> map_of (files w') q = map_of (files w) q)
           \<and> console w' = console w @ [''Thumbnail saved to '' @ output_dir pm]
           \<and> (select_image env pm (files w') = select_image env pm (files w) \<longrightarrow>
                fst (render env pm w') = Inr True
                \<and> files (snd (render env pm w')) = files w')"
  proof (intro exI [of _ bs] conjI impI allI)
    show "select_image env pm (files w) = Inr (Selected (BytesIO bs))"
      by (rule sel)
    show "files w' = AList.update (output_dir pm) (File bs) (files w)"
      by (rule fs')
    show "map_of (files w') (output_dir pm) = Some (File bs)"
      by (simp add: fs' update_conv')
    show "map_of (files w') q = map_of (files w) q" if "q \<noteq> output_dir pm" for q
      using that by (simp add: fs' update_conv')
    show "console w' = console w @ [''Thumbnail saved to '' @ output_dir pm]"
      by (rule con)
    show "fst (render env pm w') = Inr True"
      if "select_image env pm (files w') = select_image env pm (files w)"
      using render_again [OF again] that sel by simp
    show "files (snd (render env pm w')) = files w'"
      if "select_image env pm (files w') = select_image env pm (files w)"
      using render_again [OF again] that sel by simp
  qed
next
  assume h: "io_ready (files w0) p \<and> construct_and_render env p w0 = (Inr True, w2)"
  let ?pm = "ProcessModel_fields p"
  let ?w1 = "w0\<lparr>files := snd (makedirs (thumbnails_dir ?pm) (files w0))\<rparr>"
  from h makedirs_ready [of "files w0" p]
  have "ProcessModel_init p w0 = (Inr ?pm, ?w1)"
    by (simp add: ProcessModel_init_def Let_def)
  with h have "render env ?pm ?w1 = (Inr True, w2)"
    by (simp add: construct_and_render_def)
  from render_success [OF this]
  obtain bs where wf: "write_file (output_dir ?pm) bs (files ?w1) = Inr (files w2)"
    by blast
  then have at: "map_of (files w2) (output_dir ?pm) = Some (File bs)"
    by (auto dest!: write_file_result simp: update_conv')
  have again: "write_file (output_dir ?pm) bs (files w2) = Inr (files w2)"
    using wf by (rule write_file_again)
  from h construct_and_render_keeps_ready [of w0 p env "Inr True" w2]
  have "isdir (files w2) (thumbnails_dir ?pm)" and "io_ready (files w2) p"
    by simp_all
  then have "makedirs (thumbnails_dir ?pm) (files w2) = (None, files w2)"
    by (rule makedirs_existing)
  then have init2: "ProcessModel_init p w2 = (Inr ?pm, w2)"
    by (simp add: ProcessModel_init_def Let_def)
  have "fst (construct_and_render env p w2) = Inr True
      \<and> files (snd (construct_and_render env p w2)) = files w2"
    if "select_image env ?pm (files w2) = Inr (Selected (BytesIO bs))"
    using render_again [OF again that] init2 by (simp add: construct_and_render_def)
  with at show "\<exists>bs. map_of (files w2) (output_dir ?pm) = Some (File bs)
           \<and> (select_image env ?pm (files w2) = Inr (Selected (BytesIO bs))
                \<longrightarrow> fst (construct_and_render env p w2) = Inr True
                  \<and> files (snd (construct_and_render env p w2)) = files w2)"
    by blast
qed

theorem thumbnail_written_to_target_witness:
  "ProcessModel_init ''/models/ship.stl'' demo_world = (Inr ship, demo_world)
   \<and> dirname ''/models/ship.stl'' = ''/models''
   \<and> output_dir ship = ''/models/thumbnails/ship.png''
   \<and> map_of (files demo_world) ''/models/thumbnails/ship.png'' = Some (File [0])
   \<and> render (demo_env PyNone views_front_last) ship demo_world = (Inr True, demo_world_saved)
   \<and> map_of (files demo_world_saved) ''/models/thumbnails/ship.png'' = Some (File [3])
   \<and> map_of (files demo_world_saved) ''/models/ship.stl'' = Some (File [115, 111])
   \<and> select_image (demo_env PyNone views_front_last) ship (files demo_world_saved) =
       select_image (demo_env PyNone views_front_last) ship (files demo_world)
   \<and> fst (render (demo_env PyNone views_front_last) ship demo_world_saved) = Inr True
   \<and> files (snd (render (demo_env PyNone views_front_last) ship demo_world_saved)) =
       files demo_world_saved
   \<and> io_ready (files demo_world) ''/models/ship.stl''
   \<and> construct_and_render (demo_env PyNone views_front_last) ''/models/ship.stl'' demo_world =
       (Inr True, demo_world_saved)
   \<and> fst (construct_and_render (demo_env PyNone views_front_last) ''/models/ship.stl''
        demo_world_saved) = Inr True
   \<and> files (snd (construct_and_render (demo_env PyNone views_front_last) ''/models/ship.stl''
        demo_world_saved)) = files demo_world_saved"
proof -
  let ?env = "demo_env PyNone views_front_last"
  have i: "ProcessModel_init ''/models/ship.stl'' demo_world = (Inr ship, demo_world)"
    by code_simp
  have d: "dirname ''/models/ship.stl'' = ''/models''"
    by code_simp
  have o: "map_of (files demo_world) ''/models/thumbnails/ship.png'' = Some (File [0])"
    by (simp add: demo_world_def demo_files_def)
  have r: "render ?env ship demo_world = (Inr True, demo_world_saved)"
    by code_simp
  have s: "select_image ?env ship (files demo_world_saved) =
       select_image ?env ship (files demo_world)"
    by (simp add: select_image_def demo_env_def demo_exts)
  have sel: "select_image ?env ship (files demo_world) = Inr (Selected (BytesIO [3]))"
    by code_simp
  have rdy: "io_ready (files demo_world) ''/models/ship.stl''"
    by code_simp
  have car: "construct_and_render ?env ''/models/ship.stl'' demo_world =
      (Inr True, demo_world_saved)"
    by code_simp
  note t = thumbnail_written_to_target [of "''/models/ship.stl''" demo_world ?env ship
      demo_world demo_world_saved demo_world_saved]
  from t r
  obtain bs where a: "select_image ?env ship (files demo_world) = Inr (Selected (BytesIO bs))"
    and b: "map_of (files demo_world_saved) (output_dir ship) = Some (File bs)"
    and c: "\<forall>q. q \<noteq> output_dir ship \<longrightarrow>
        map_of (files demo_world_saved) q = map_of (files demo_world) q"
    and e: "select_image ?env ship (files demo_world_saved) =
        select_image ?env ship (files demo_world) \<longrightarrow>
        fst (render ?env ship demo_world_saved) = Inr True
        \<and> files (snd (render ?env ship demo_world_saved)) = files demo_world_saved"
    by blast
  from a sel have bs: "bs = [3]"
    by simp
  from c have "map_of (files demo_world_saved) ''/models/ship.stl'' =
      map_of (files demo_world) ''/models/ship.stl''"
    by (simp add: demo_paths)
  then have m: "map_of (files demo_world_saved) ''/models/ship.stl'' = Some (File [115, 111])"
    by (simp add: demo_world_def demo_files_def)
  from b bs e s
  have f: "map_of (files demo_world_saved) ''/models/thumbnails/ship.png'' = Some (File [3])"
    and g: "fst (render ?env ship demo_world_saved) = Inr True"
    and h: "files (snd (render ?env ship demo_world_saved)) = files demo_world_saved"
    by (simp_all add: demo_paths)
  from t rdy car
  obtain bs' where
    b': "map_of (files demo_world_saved) (output_dir (ProcessModel_fields ''/models/ship.stl'')) =
        Some (File bs')"
    and e': "select_image ?env (ProcessModel_fields ''/models/ship.stl'') (files demo_world_saved) =
        Inr (Selected (BytesIO bs')) \<longrightarrow>
        fst (construct_and_render ?env ''/models/ship.stl'' demo_world_saved) = Inr True
        \<and> files (snd (construct_and_render ?env ''/models/ship.stl'' demo_world_saved)) =
          files demo_world_saved"
    by blast
  from b' f have "bs' = [3]"
    by (simp add: ship_def [symmetric] demo_paths)
  with e' s sel
  have k: "fst (construct_and_render ?env ''/models/ship.stl'' demo_world_saved) = Inr True"
    and l: "files (snd (construct_and_render ?env ''/models/ship.stl'' demo_world_saved)) =
      files demo_world_saved"
    by (simp_all add: ship_def [symmetric])
  from i d o r s m f g h rdy car k l show ?thesis
    by (simp add: demo_paths)
qed

subsection \<open>The directory walk\<close>

text \<open>
  Claim C8. On a directory, \<^verbatim>\<open>process_path\<close> does exactly what the specification's
  two parts do: it runs the thumbnailer, in order, on the candidates of the walk, and the
  candidates are the names of the listing, in listing order, whose path is a regular file
  at the start and whose extension, lowercased, is supported. Every candidate is a direct
  entry of the directory (its name has no separator) and no directory, so nothing below a
  subdirectory is visited; every other entry is left out.
\<close>

theorem directory_walk_candidates:
  assumes "isdir (files w) path"
  shows "process_path env path w =
      spec_thumbnail_each env (spec_walk (files w) path)
        (print_line (''Processing folder: '' @ path) w)
    \<and> (\<exists>names. listdir (files w) path = Inr names
          \<and> spec_walk (files w) path =
              map (join path)
                (filter (\<lambda>f. isfile (files w) (join path f) \<and> ext_lower f \<in> SUPPORTED_EXTS)
                   names))
    \<and> (\<forall>c\<in>set (spec_walk (files w) path).
          isfile (files w) c \<and> \<not> isdir (files w) c
          \<and> (\<exists>f. c = join path f \<and> f \<noteq> [] \<and> CHR ''/'' \<notin> set f
                \<and> ext_lower f \<in> SUPPORTED_EXTS))"
proof (intro conjI)
  show "process_path env path w =
      spec_thumbnail_each env (spec_walk (files w) path)
        (print_line (''Processing folder: '' @ path) w)"
    using assms by (rule process_path_directory)
next
  from assms obtain names where "listdir (files w) path = Inr names"
    by (simp add: listdir_isdir)
  then show "\<exists>names. listdir (files w) path = Inr names
          \<and> spec_walk (files w) path =
              map (join path)
                (filter (\<lambda>f. isfile (files w) (join path f) \<and> ext_lower f \<in> SUPPORTED_EXTS)
                   names)"
    by (simp add: spec_walk_def)
next
  show "\<forall>c\<in>set (spec_walk (files w) path).
          isfile (files w) c \<and> \<not> isdir (files w) c
          \<and> (\<exists>f. c = join path f \<and> f \<noteq> [] \<and> CHR ''/'' \<notin> set f
                \<and> ext_lower f \<in> SUPPORTED_EXTS)"
    using spec_walk_members by blast
qed

theorem directory_walk_candidates_witness:
  "isdir (files demo_world) ''/models''
   \<and> listdir (files demo_world) ''/models'' =
       Inr [''chair.OBJ'', ''tank.glb'', ''readme.txt'', ''sub'', ''ship.stl'', ''thumbnails'']
   \<and> isfile (files demo_world) ''/models/readme.txt''
   \<and> isdir (files demo_world) ''/models/sub''
   \<and> isfile (files demo_world) ''/models/sub/inner.obj''
   \<and> spec_walk (files demo_world) ''/models'' =
       [''/models/chair.OBJ'', ''/models/tank.glb'', ''/models/ship.stl'']
   \<and> process_path mixed_env ''/models'' demo_world =
       spec_thumbnail_each mixed_env
         [''/models/chair.OBJ'', ''/models/tank.glb'', ''/models/ship.stl'']
         (print_line ''Processing folder: /models'' demo_world)
   \<and> process_path mixed_env ''/models'' demo_world = (None, demo_world_walked)"
proof -
  have d: "isdir (files demo_world) ''/models''"
    by (simp add: isdir_def demo_world_def demo_files_def)
  have l: "listdir (files demo_world) ''/models'' =
       Inr [''chair.OBJ'', ''tank.glb'', ''readme.txt'', ''sub'', ''ship.stl'', ''thumbnails'']"
    by code_simp
  have o: "isfile (files demo_world) ''/models/readme.txt''"
    "isdir (files demo_world) ''/models/sub''"
    "isfile (files demo_world) ''/models/sub/inner.obj''"
    by (simp_all add: isdir_def isfile_def demo_world_def demo_files_def)
  have s: "spec_walk (files demo_world) ''/models'' =
       [''/models/chair.OBJ'', ''/models/tank.glb'', ''/models/ship.stl'']"
    by code_simp
  have e: "spec_thumbnail_each mixed_env
         [''/models/chair.OBJ'', ''/models/tank.glb'', ''/models/ship.stl'']
         (print_line ''Processing folder: /models'' demo_world) = (None, demo_world_walked)"
    by code_simp
  from directory_walk_candidates [OF d, of mixed_env]
  have "process_path mixed_env ''/models'' demo_world =
       spec_thumbnail_each mixed_env
         [''/models/chair.OBJ'', ''/models/tank.glb'', ''/models/ship.stl'']
         (print_line ''Processing folder: /models'' demo_world)"
    by (simp add: s)
  with d l o s e show ?thesis
    by simp
qed




end
